theory Spec2Isabelle
  imports Main
begin

section \<open>Data model\<close>

text \<open>
  The tables of \<^verbatim>\<open>migrations/versions/2025_08_31_1000-add_ldap_tables.py\<close> and the
  ORM classes that \<^verbatim>\<open>services/ldap_service.py\<close> reads and writes. A \<^verbatim>\<open>DateTime\<close>
  column is a number of clock ticks; a nullable column is an \<open>option\<close>. Field names carry
  a prefix for the class (\<open>lc_\<close> LdapConfig, \<open>lu_\<close> LdapUser, \<open>acc_\<close> Account,
  \<open>taj_\<close> TenantAccountJoin) because several classes share column names.
\<close>

type_synonym timestamp = nat

record LdapConfig =
  lc_id :: string
  lc_tenant_id :: string
  lc_enabled :: bool
  lc_server_url :: string
  lc_bind_dn :: string
  lc_bind_password :: string
  lc_base_dn :: string
  lc_user_filter :: "string option"
  lc_user_id_attribute :: string
  lc_user_email_attribute :: string
  lc_user_name_attribute :: string
  lc_sync_interval :: int
  lc_last_sync_at :: "timestamp option"
  lc_created_at :: timestamp
  lc_updated_at :: timestamp

record LdapUser =
  lu_id :: string
  lu_tenant_id :: string
  lu_account_id :: "string option"
  lu_ldap_uid :: string
  lu_email :: string
  lu_name :: string
  lu_ldap_dn :: string
  lu_enabled :: bool
  lu_last_sync_at :: timestamp
  lu_created_at :: timestamp
  lu_updated_at :: timestamp

text \<open>
  \<^verbatim>\<open>models.account\<close> is imported by the service but is not among the source files. Of
  \<^verbatim>\<open>Account\<close>, \<^verbatim>\<open>TenantAccountJoin\<close> and the two enumerations only what the service
  names is modelled: the columns it reads or writes and the members \<^verbatim>\<open>ACTIVE\<close> and
  \<^verbatim>\<open>NORMAL\<close>; every other member is behind the second constructor.
\<close>

datatype AccountStatus = ACTIVE | OtherAccountStatus string

datatype TenantAccountRole = NORMAL | OtherTenantAccountRole string

record Account =
  acc_id :: string
  acc_name :: string
  acc_email :: string
  acc_status :: AccountStatus
  acc_initialized_at :: "timestamp option"

record TenantAccountJoin =
  taj_tenant_id :: string
  taj_account_id :: string
  taj_role :: TenantAccountRole

text \<open>
  The exception classes of the service. \<^verbatim>\<open>LdapServiceError\<close> is the base class, the
  other three derive from it. An exception value is its class and its message; the
  messages are constructors, one for each message text in the source.
\<close>

datatype exception_class =
  LdapServiceError | LdapConnectionError | LdapAuthError | LdapUserNotFoundError

datatype message =
  NoEnabledConfig | CannotConnect | SearchFailed | AuthenticationFailed
  | UserMissingOrDisabled | UserMissing

type_synonym error = "exception_class \<times> message"

fun isinstance :: "error \<Rightarrow> exception_class \<Rightarrow> bool" where
  "isinstance (c, m) LdapServiceError = True"
| "isinstance (c, m) k = (c = k)"

text \<open>
  A dictionary built by \<^verbatim>\<open>search_ldap_users\<close> (keys uid, email, name, dn) and the
  statistics dictionary of \<^verbatim>\<open>sync_ldap_users\<close> (keys total, created, updated, disabled).
\<close>

record user_data =
  ud_uid :: string
  ud_email :: string
  ud_name :: string
  ud_dn :: string

record sync_stats =
  total :: nat
  created :: nat
  updated :: nat
  disabled :: nat

text \<open>
  An entry of \<^verbatim>\<open>conn.entries\<close>: for each attribute the entry carries, the text that
  \<^verbatim>\<open>str\<close> gives for it, and the entry's distinguished name.
\<close>

record ldap_entry =
  entry_attributes :: "(string \<times> string) list"
  entry_dn :: string

section \<open>The world outside the service\<close>

text \<open>
  What the directory, the clock and the database server answer is not decided by the
  service, so it is a parameter: whether a bind with given server, name and password
  succeeds (the constructor of \<^verbatim>\<open>Connection\<close> with \<^verbatim>\<open>auto_bind=True\<close> raises when it
  does not), what a search does, the reading of \<^verbatim>\<open>naive_utc_now\<close>, and the identifiers
  that the column default \<^verbatim>\<open>uuid_generate_v4()\<close> hands out. One call of a service function
  is modelled at one clock reading.

  A call of \<^verbatim>\<open>conn.search\<close> either raises, or returns a truth value and leaves the entries
  it received in \<^verbatim>\<open>conn.entries\<close>. The connection is built without
  \<^verbatim>\<open>raise_exceptions\<close>, so the truth value is the only report of a search that the
  directory refused or cut short; then the entries are none, or those received so far.
\<close>

datatype search_result = SearchRaises | SearchReturns bool "ldap_entry list"

record env =
  ldap_auto_bind :: "string \<Rightarrow> string \<Rightarrow> string \<Rightarrow> bool"
  ldap_search :: "string \<Rightarrow> string \<Rightarrow> string \<Rightarrow> string \<Rightarrow> string list \<Rightarrow> search_result"
  utc_now :: timestamp
  uuid_generate_v4 :: "nat \<Rightarrow> string"

datatype ldap_event =
  Bind string string string | Search string string "string list" | Unbind

record tables =
  ldap_configs :: "LdapConfig list"
  ldap_users :: "LdapUser list"
  accounts :: "Account list"
  tenant_account_joins :: "TenantAccountJoin list"

text \<open>
  The state: the committed tables, the tables as the open transaction of
  \<^verbatim>\<open>db.session\<close> sees them (queries read these, attribute assignments and
  \<^verbatim>\<open>session.add\<close> write these), the number of identifiers handed out so far, and the log
  of directory operations. A table is the list of its rows in insertion order;
  \<^verbatim>\<open>first()\<close> is the earliest row that matches, and an ORM object is the position of its
  row.
\<close>

record world =
  durable :: tables
  session :: tables
  uuid_count :: nat
  ldap_log :: "ldap_event list"

fun first_index :: "('a \<Rightarrow> bool) \<Rightarrow> 'a list \<Rightarrow> nat option" where
  "first_index P [] = None"
| "first_index P (x # xs) = (if P x then Some 0 else map_option Suc (first_index P xs))"

definition naive_utc_now :: "env \<Rightarrow> timestamp" where
  "naive_utc_now e = utc_now e"

definition commit :: "world \<Rightarrow> world" where
  "commit w = w\<lparr>durable := session w\<rparr>"

definition set_ldap_users :: "LdapUser list \<Rightarrow> world \<Rightarrow> world" where
  "set_ldap_users us w = w\<lparr>session := (session w)\<lparr>ldap_users := us\<rparr>\<rparr>"

definition set_ldap_configs :: "LdapConfig list \<Rightarrow> world \<Rightarrow> world" where
  "set_ldap_configs cs w = w\<lparr>session := (session w)\<lparr>ldap_configs := cs\<rparr>\<rparr>"

definition log_event :: "ldap_event \<Rightarrow> world \<Rightarrow> world" where
  "log_event ev w = w\<lparr>ldap_log := ldap_log w @ [ev]\<rparr>"

section \<open>LdapService\<close>

definition get_ldap_config :: "string \<Rightarrow> world \<Rightarrow> nat option" where
  "get_ldap_config tenant_id w =
     first_index (\<lambda>c. lc_tenant_id c = tenant_id \<and> lc_enabled c) (ldap_configs (session w))"

definition create_ldap_connection :: "env \<Rightarrow> LdapConfig \<Rightarrow> world \<Rightarrow> (error + unit) \<times> world" where
  "create_ldap_connection e config w =
     (let w1 = log_event (Bind (lc_server_url config) (lc_bind_dn config) (lc_bind_password config)) w
      in if ldap_auto_bind e (lc_server_url config) (lc_bind_dn config) (lc_bind_password config)
         then (Inr (), w1)
         else (Inl (LdapConnectionError, CannotConnect), w1))"

definition getattr :: "ldap_entry \<Rightarrow> string \<Rightarrow> string" where
  "getattr entry a = (case map_of (entry_attributes entry) a of None \<Rightarrow> [] | Some v \<Rightarrow> v)"

definition entry_user_data :: "LdapConfig \<Rightarrow> ldap_entry \<Rightarrow> user_data" where
  "entry_user_data config entry =
     \<lparr>ud_uid = getattr entry (lc_user_id_attribute config),
      ud_email = getattr entry (lc_user_email_attribute config),
      ud_name = getattr entry (lc_user_name_attribute config),
      ud_dn = entry_dn entry\<rparr>"

fun collect_users :: "LdapConfig \<Rightarrow> ldap_entry list \<Rightarrow> user_data list \<Rightarrow> user_data list" where
  "collect_users config [] users = users"
| "collect_users config (entry # entries) users =
     (let user_data = entry_user_data config entry
      in if ud_uid user_data \<noteq> [] \<and> ud_email user_data \<noteq> []
         then collect_users config entries (users @ [user_data])
         else collect_users config entries users)"

definition search_filter_of :: "LdapConfig \<Rightarrow> string" where
  "search_filter_of config =
     (case lc_user_filter config of
        None \<Rightarrow> ''(objectClass=person)''
      | Some f \<Rightarrow> if f = [] then ''(objectClass=person)'' else f)"

definition search_attributes :: "LdapConfig \<Rightarrow> string list" where
  "search_attributes config =
     [lc_user_id_attribute config, lc_user_email_attribute config,
      lc_user_name_attribute config, ''dn'']"

definition search_ldap_users :: "env \<Rightarrow> LdapConfig \<Rightarrow> world \<Rightarrow> (error + user_data list) \<times> world" where
  "search_ldap_users e config w =
     (case create_ldap_connection e config w of
        (Inl err, w1) \<Rightarrow> (Inl err, w1)
      | (Inr conn, w1) \<Rightarrow>
          (let search_filter = search_filter_of config;
               w2 = log_event (Search (lc_base_dn config) search_filter (search_attributes config)) w1
           in case ldap_search e (lc_server_url config) (lc_bind_dn config) (lc_base_dn config)
                     search_filter (search_attributes config) of
                SearchRaises \<Rightarrow> (Inl (LdapServiceError, SearchFailed), log_event Unbind w2)
              | SearchReturns found entries \<Rightarrow>
                  (Inr (collect_users config entries []), log_event Unbind w2)))"

definition is_ldap_user :: "string \<Rightarrow> string \<Rightarrow> LdapUser \<Rightarrow> bool" where
  "is_ldap_user tenant_id uid u = (lu_tenant_id u = tenant_id \<and> lu_ldap_uid u = uid)"

definition refresh_user :: "env \<Rightarrow> user_data \<Rightarrow> LdapUser \<Rightarrow> LdapUser" where
  "refresh_user e user_data ldap_user =
     (let u = ldap_user\<lparr>lu_email := ud_email user_data,
                        lu_name := ud_name user_data,
                        lu_ldap_dn := ud_dn user_data,
                        lu_last_sync_at := naive_utc_now e,
                        lu_updated_at := naive_utc_now e\<rparr>
      in if \<not> lu_enabled u then u\<lparr>lu_enabled := True\<rparr> else u)"

definition new_ldap_user :: "env \<Rightarrow> string \<Rightarrow> string \<Rightarrow> user_data \<Rightarrow> LdapUser" where
  "new_ldap_user e new_id tenant_id user_data =
     \<lparr>lu_id = new_id,
      lu_tenant_id = tenant_id,
      lu_account_id = None,
      lu_ldap_uid = ud_uid user_data,
      lu_email = ud_email user_data,
      lu_name = ud_name user_data,
      lu_ldap_dn = ud_dn user_data,
      lu_enabled = True,
      lu_last_sync_at = naive_utc_now e,
      lu_created_at = utc_now e,
      lu_updated_at = utc_now e\<rparr>"

definition sync_user :: "env \<Rightarrow> string \<Rightarrow> user_data \<Rightarrow> world \<times> sync_stats \<Rightarrow> world \<times> sync_stats" where
  "sync_user e tenant_id user_data = (\<lambda>(w, stats).
     case first_index (is_ldap_user tenant_id (ud_uid user_data)) (ldap_users (session w)) of
       Some i \<Rightarrow>
         (set_ldap_users
            ((ldap_users (session w))[i := refresh_user e user_data (ldap_users (session w) ! i)]) w,
          stats\<lparr>updated := updated stats + 1\<rparr>)
     | None \<Rightarrow>
         (set_ldap_users
            (ldap_users (session w) @
               [new_ldap_user e (uuid_generate_v4 e (uuid_count w)) tenant_id user_data])
            (w\<lparr>uuid_count := uuid_count w + 1\<rparr>),
          stats\<lparr>created := created stats + 1\<rparr>))"

fun sync_users_loop :: "env \<Rightarrow> string \<Rightarrow> user_data list \<Rightarrow> world \<times> sync_stats \<Rightarrow> world \<times> sync_stats" where
  "sync_users_loop e tenant_id [] s = s"
| "sync_users_loop e tenant_id (user_data # rest) s =
     sync_users_loop e tenant_id rest (sync_user e tenant_id user_data s)"

definition disable_user :: "env \<Rightarrow> string \<Rightarrow> string \<Rightarrow> world \<times> sync_stats \<Rightarrow> world \<times> sync_stats" where
  "disable_user e tenant_id uid = (\<lambda>(w, stats).
     case first_index (is_ldap_user tenant_id uid) (ldap_users (session w)) of
       Some i \<Rightarrow>
         if lu_enabled (ldap_users (session w) ! i)
         then (set_ldap_users
                 ((ldap_users (session w))
                    [i := (ldap_users (session w) ! i)\<lparr>lu_enabled := False,
                                                       lu_updated_at := naive_utc_now e\<rparr>]) w,
               stats\<lparr>disabled := disabled stats + 1\<rparr>)
         else (w, stats)
     | None \<Rightarrow> (w, stats))"

fun disable_users_loop :: "env \<Rightarrow> string \<Rightarrow> string list \<Rightarrow> world \<times> sync_stats \<Rightarrow> world \<times> sync_stats" where
  "disable_users_loop e tenant_id [] s = s"
| "disable_users_loop e tenant_id (uid # rest) s =
     disable_users_loop e tenant_id rest (disable_user e tenant_id uid s)"

text \<open>
  \<^verbatim>\<open>existing_uids - current_uids\<close> is a set; the loop over it visits each of its elements
  once. The model visits them in table order.
\<close>

definition existing_uids :: "string \<Rightarrow> world \<Rightarrow> string list" where
  "existing_uids tenant_id w =
     map lu_ldap_uid (filter (\<lambda>u. lu_tenant_id u = tenant_id) (ldap_users (session w)))"

definition uids_to_disable :: "string list \<Rightarrow> string list \<Rightarrow> string list" where
  "uids_to_disable existing current = remdups (filter (\<lambda>uid. uid \<notin> set current) existing)"

definition touch_config :: "env \<Rightarrow> nat \<Rightarrow> world \<Rightarrow> world" where
  "touch_config e i w =
     set_ldap_configs
       ((ldap_configs (session w))
          [i := (ldap_configs (session w) ! i)\<lparr>lc_last_sync_at := Some (naive_utc_now e),
                                                lc_updated_at := naive_utc_now e\<rparr>]) w"

text \<open>Everything \<^verbatim>\<open>sync_ldap_users\<close> does after the fetch and before the commit.\<close>

definition apply_sync :: "env \<Rightarrow> string \<Rightarrow> nat \<Rightarrow> user_data list \<Rightarrow> world \<Rightarrow> world \<times> sync_stats" where
  "apply_sync e tenant_id config_index ldap_users_fetched w =
     (let stats = \<lparr>total = length ldap_users_fetched, created = 0, updated = 0, disabled = 0\<rparr>;
          existing = existing_uids tenant_id w;
          current = map ud_uid ldap_users_fetched;
          s1 = sync_users_loop e tenant_id ldap_users_fetched (w, stats);
          (w2, stats2) = disable_users_loop e tenant_id (uids_to_disable existing current) s1
      in (touch_config e config_index w2, stats2))"

definition sync_ldap_users :: "env \<Rightarrow> string \<Rightarrow> world \<Rightarrow> (error + sync_stats) \<times> world" where
  "sync_ldap_users e tenant_id w =
     (case get_ldap_config tenant_id w of
        None \<Rightarrow> (Inl (LdapServiceError, NoEnabledConfig), w)
      | Some ci \<Rightarrow>
          (case search_ldap_users e (ldap_configs (session w) ! ci) w of
             (Inl err, w1) \<Rightarrow> (Inl err, w1)
           | (Inr ldap_users_fetched, w1) \<Rightarrow>
               (let (w2, stats) = apply_sync e tenant_id ci ldap_users_fetched w1
                in (Inr stats, commit w2))))"

definition truthy :: "string option \<Rightarrow> bool" where
  "truthy v = (case v of None \<Rightarrow> False | Some s \<Rightarrow> s \<noteq> [])"

definition get_or_create_local_account :: "env \<Rightarrow> nat \<Rightarrow> string \<Rightarrow> world \<Rightarrow> Account \<times> world" where
  "get_or_create_local_account e ui tenant_id w =
     (let ldap_user = ldap_users (session w) ! ui;
          linked = (if truthy (lu_account_id ldap_user)
                    then find (\<lambda>a. Some (acc_id a) = lu_account_id ldap_user) (accounts (session w))
                    else None)
      in case linked of
           Some account \<Rightarrow> (account, w)
         | None \<Rightarrow>
             (case find (\<lambda>a. acc_email a = lu_email ldap_user) (accounts (session w)) of
                Some existing_account \<Rightarrow>
                  (existing_account,
                   commit (set_ldap_users
                     ((ldap_users (session w))
                        [ui := ldap_user\<lparr>lu_account_id := Some (acc_id existing_account),
                                          lu_updated_at := naive_utc_now e\<rparr>]) w))
              | None \<Rightarrow>
                  (let account = \<lparr>acc_id = uuid_generate_v4 e (uuid_count w),
                                  acc_name = lu_name ldap_user,
                                  acc_email = lu_email ldap_user,
                                  acc_status = ACTIVE,
                                  acc_initialized_at = Some (naive_utc_now e)\<rparr>;
                       w1 = w\<lparr>session := (session w)\<lparr>accounts := accounts (session w) @ [account]\<rparr>,
                              uuid_count := uuid_count w + 1\<rparr>;
                       w2 = set_ldap_users
                              ((ldap_users (session w1))
                                 [ui := ldap_user\<lparr>lu_account_id := Some (acc_id account),
                                                   lu_updated_at := naive_utc_now e\<rparr>]) w1;
                       tenant_join = \<lparr>taj_tenant_id = tenant_id,
                                      taj_account_id = acc_id account,
                                      taj_role = NORMAL\<rparr>;
                       w3 = w2\<lparr>session := (session w2)
                                \<lparr>tenant_account_joins := tenant_account_joins (session w2) @ [tenant_join]\<rparr>\<rparr>
                   in (account, commit w3))))"

definition authenticate_ldap_user :: "env \<Rightarrow> string \<Rightarrow> string \<Rightarrow> string \<Rightarrow> world \<Rightarrow> (error + Account) \<times> world" where
  "authenticate_ldap_user e tenant_id email password w =
     (case get_ldap_config tenant_id w of
        None \<Rightarrow> (Inl (LdapServiceError, NoEnabledConfig), w)
      | Some ci \<Rightarrow>
          (case first_index (\<lambda>u. lu_tenant_id u = tenant_id \<and> lu_email u = email \<and> lu_enabled u)
                  (ldap_users (session w)) of
             None \<Rightarrow> (Inl (LdapUserNotFoundError, UserMissingOrDisabled), w)
           | Some ui \<Rightarrow>
               (let config = ldap_configs (session w) ! ci;
                    ldap_user = ldap_users (session w) ! ui;
                    w1 = log_event (Bind (lc_server_url config) (lu_ldap_dn ldap_user) password) w
                in if ldap_auto_bind e (lc_server_url config) (lu_ldap_dn ldap_user) password
                   then (case get_or_create_local_account e ui tenant_id (log_event Unbind w1) of
                           (account, w2) \<Rightarrow> (Inr account, w2))
                   else (Inl (LdapAuthError, AuthenticationFailed), w1))))"

text \<open>
  The dictionary that \<^verbatim>\<open>get_sync_stats\<close> returns, as the list of its items in insertion
  order. A value is an integer, the ISO text of a time (kept as the time), or \<^verbatim>\<open>None\<close>.
\<close>

datatype stat_value = IntValue int | IsoFormat timestamp | NoneValue

definition get_sync_stats :: "string \<Rightarrow> world \<Rightarrow> (string \<times> stat_value) list" where
  "get_sync_stats tenant_id w =
     (case get_ldap_config tenant_id w of
        None \<Rightarrow> []
      | Some ci \<Rightarrow>
          (let config = ldap_configs (session w) ! ci;
               total_users = int (length (filter (\<lambda>u. lu_tenant_id u = tenant_id)
                                            (ldap_users (session w))));
               enabled_users = int (length (filter (\<lambda>u. lu_tenant_id u = tenant_id \<and> lu_enabled u)
                                              (ldap_users (session w))))
           in [(''total_users'', IntValue total_users),
               (''enabled_users'', IntValue enabled_users),
               (''disabled_users'', IntValue (total_users - enabled_users)),
               (''last_sync_at'', (case lc_last_sync_at config of
                                     None \<Rightarrow> NoneValue | Some t \<Rightarrow> IsoFormat t)),
               (''sync_interval'', IntValue (lc_sync_interval config))]))"

section \<open>Vocabulary of the properties\<close>

text \<open>The check that \<^verbatim>\<open>search_ldap_users\<close> makes on a record before keeping it.\<close>

definition valid_user_data :: "user_data \<Rightarrow> bool" where
  "valid_user_data d = (ud_uid d \<noteq> [] \<and> ud_email d \<noteq> [])"

text \<open>The table of mirrored users in a state of a loop.\<close>

abbreviation (input) US :: "world \<times> sync_stats \<Rightarrow> LdapUser list" where
  "US s \<equiv> ldap_users (session (fst s))"

text \<open>
  The second table continues the first: every row of the first is still at its position,
  with its identifier, tenant, uid, account link and creation time. (Tenant and uid are
  the columns of the unique constraint \<^verbatim>\<open>unique_tenant_ldap_user\<close>.)
\<close>

definition same_keys :: "LdapUser list \<Rightarrow> LdapUser list \<Rightarrow> bool" where
  "same_keys us us' \<longleftrightarrow>
     length us \<le> length us' \<and>
     (\<forall>i<length us. lu_tenant_id (us' ! i) = lu_tenant_id (us ! i) \<and>
                     lu_ldap_uid (us' ! i) = lu_ldap_uid (us ! i) \<and>
                     lu_account_id (us' ! i) = lu_account_id (us ! i) \<and>
                     lu_id (us' ! i) = lu_id (us ! i) \<and>
                     lu_created_at (us' ! i) = lu_created_at (us ! i))"

text \<open>The last fetched record that carries a uid.\<close>

definition latest :: "string \<Rightarrow> user_data list \<Rightarrow> user_data option" where
  "latest uid rs = find (\<lambda>r. ud_uid r = uid) (rev rs)"

text \<open>A row carries the data of a fetched record, is enabled and was touched at this run.\<close>

definition refreshed_from :: "env \<Rightarrow> user_data \<Rightarrow> LdapUser \<Rightarrow> bool" where
  "refreshed_from e d u \<longleftrightarrow>
     lu_email u = ud_email d \<and> lu_name u = ud_name d \<and> lu_ldap_dn u = ud_dn d \<and>
     lu_enabled u \<and> lu_last_sync_at u = utc_now e \<and> lu_updated_at u = utc_now e"

text \<open>The uids of the fetch that have no row of the tenant yet.\<close>

definition new_uids :: "string \<Rightarrow> user_data list \<Rightarrow> LdapUser list \<Rightarrow> string set" where
  "new_uids t rs us = {uid \<in> ud_uid ` set rs. first_index (is_ldap_user t uid) us = None}"

text \<open>The uids among \<open>ds\<close> whose row (the one the query returns) is enabled.\<close>

definition enabled_uids :: "string \<Rightarrow> string list \<Rightarrow> LdapUser list \<Rightarrow> string set" where
  "enabled_uids t ds us =
     {d \<in> set ds. \<exists>i. first_index (is_ldap_user t d) us = Some i \<and> lu_enabled (us ! i)}"

text \<open>The directory without the entries that \<^verbatim>\<open>search_ldap_users\<close> leaves out.\<close>

definition without_invalid :: "LdapConfig \<Rightarrow> env \<Rightarrow> env" where
  "without_invalid config e =
     e\<lparr>ldap_search := (\<lambda>url bind_dn base search_filter attributes.
          case ldap_search e url bind_dn base search_filter attributes of
            SearchRaises \<Rightarrow> SearchRaises
          | SearchReturns found entries \<Rightarrow>
              SearchReturns found
                (filter (\<lambda>entry. valid_user_data (entry_user_data config entry)) entries))\<rparr>"

section \<open>A small directory and database\<close>

text \<open>
  Tenant \<open>t1\<close> has an enabled configuration, tenant \<open>t2\<close> has none. The mirror of
  \<open>t1\<close> holds a disabled row for alice with an old address and an enabled row for carol;
  \<open>t2\<close> holds a row with alice's uid. The directory lists alice, bob, and an entry
  without a mail attribute; a bind succeeds with the password \<open>secret\<close>.
\<close>

definition demo_config :: LdapConfig where
  "demo_config =
     \<lparr>lc_id = ''cfg-1'', lc_tenant_id = ''t1'', lc_enabled = True,
      lc_server_url = ''ldap://directory'', lc_bind_dn = ''cn=admin,dc=x'',
      lc_bind_password = ''secret'', lc_base_dn = ''dc=x'', lc_user_filter = None,
      lc_user_id_attribute = ''uid'', lc_user_email_attribute = ''mail'',
      lc_user_name_attribute = ''cn'', lc_sync_interval = 30, lc_last_sync_at = None,
      lc_created_at = 1, lc_updated_at = 1\<rparr>"

definition demo_alice :: LdapUser where
  "demo_alice =
     \<lparr>lu_id = ''u-1'', lu_tenant_id = ''t1'', lu_account_id = Some ''acc-1'',
      lu_ldap_uid = ''alice'', lu_email = ''old@x.org'', lu_name = ''A'',
      lu_ldap_dn = ''uid=alice,dc=x'', lu_enabled = False, lu_last_sync_at = 2,
      lu_created_at = 2, lu_updated_at = 3\<rparr>"

definition demo_carol :: LdapUser where
  "demo_carol =
     \<lparr>lu_id = ''u-2'', lu_tenant_id = ''t1'', lu_account_id = Some ''acc-2'',
      lu_ldap_uid = ''carol'', lu_email = ''carol@x.org'', lu_name = ''Carol'',
      lu_ldap_dn = ''uid=carol,dc=x'', lu_enabled = True, lu_last_sync_at = 2,
      lu_created_at = 2, lu_updated_at = 2\<rparr>"

definition demo_other :: LdapUser where
  "demo_other =
     \<lparr>lu_id = ''u-3'', lu_tenant_id = ''t2'', lu_account_id = None,
      lu_ldap_uid = ''alice'', lu_email = ''alice@y.org'', lu_name = ''Alice Y'',
      lu_ldap_dn = ''uid=alice,dc=y'', lu_enabled = False, lu_last_sync_at = 2,
      lu_created_at = 2, lu_updated_at = 2\<rparr>"

definition demo_account :: Account where
  "demo_account =
     \<lparr>acc_id = ''acc-1'', acc_name = ''Alice'', acc_email = ''alice@x.org'',
      acc_status = ACTIVE, acc_initialized_at = Some 1\<rparr>"

definition demo_tables :: tables where
  "demo_tables =
     \<lparr>ldap_configs = [demo_config],
      ldap_users = [demo_alice, demo_carol, demo_other],
      accounts = [demo_account],
      tenant_account_joins = []\<rparr>"

definition demo_world :: world where
  "demo_world = \<lparr>durable = demo_tables, session = demo_tables, uuid_count = 0, ldap_log = []\<rparr>"

definition demo_entries :: "ldap_entry list" where
  "demo_entries =
     [\<lparr>entry_attributes = [(''uid'', ''alice''), (''mail'', ''alice@x.org''), (''cn'', ''Alice'')],
       entry_dn = ''uid=alice,ou=people,dc=x''\<rparr>,
      \<lparr>entry_attributes = [(''uid'', ''bob''), (''mail'', ''bob@x.org''), (''cn'', ''Bob'')],
       entry_dn = ''uid=bob,ou=people,dc=x''\<rparr>,
      \<lparr>entry_attributes = [(''uid'', ''eve''), (''cn'', ''Eve'')],
       entry_dn = ''uid=eve,ou=people,dc=x''\<rparr>]"

definition demo_env :: env where
  "demo_env =
     \<lparr>ldap_auto_bind = (\<lambda>url dn password. password = ''secret''),
      ldap_search = (\<lambda>url bind_dn base search_filter attributes. SearchReturns True demo_entries),
      utc_now = 100,
      uuid_generate_v4 = (\<lambda>n. ''id-'' @ replicate n (CHR ''x''))\<rparr>"

definition demo_env_unreachable :: env where
  "demo_env_unreachable = demo_env\<lparr>ldap_auto_bind := (\<lambda>url dn password. False)\<rparr>"

definition demo_env_search_raises :: env where
  "demo_env_search_raises =
     demo_env\<lparr>ldap_search := (\<lambda>url bind_dn base search_filter attributes. SearchRaises)\<rparr>"

definition demo_env_search_refused :: env where
  "demo_env_search_refused =
     demo_env\<lparr>ldap_search := (\<lambda>url bind_dn base search_filter attributes. SearchReturns False [])\<rparr>"

text \<open>
  The same database when tenant \<open>t2\<close> has an enabled configuration too, and the state in
  which the run of tenant \<open>t1\<close> stands there when it stops after the first fetched record:
  the session holds the refreshed row of alice and nothing else of the run has happened.
\<close>

definition demo_config_t2 :: LdapConfig where
  "demo_config_t2 = demo_config\<lparr>lc_id := ''cfg-2'', lc_tenant_id := ''t2''\<rparr>"

definition demo_world_two_tenants :: world where
  "demo_world_two_tenants =
     \<lparr>durable = demo_tables\<lparr>ldap_configs := [demo_config, demo_config_t2]\<rparr>,
      session = demo_tables\<lparr>ldap_configs := [demo_config, demo_config_t2]\<rparr>,
      uuid_count = 0, ldap_log = []\<rparr>"

definition demo_stopped :: world where
  "demo_stopped =
     fst (sync_users_loop demo_env ''t1'' (take 1 (collect_users demo_config demo_entries []))
            (demo_world_two_tenants, \<lparr>total = 2, created = 0, updated = 0, disabled = 0\<rparr>))"

text \<open>
  A person without a mail address. The attribute was asked for, so the entry carries it
  without a value, and \<^verbatim>\<open>str\<close> of an attribute without a value is the text \<^verbatim>\<open>[]\<close>.
\<close>

definition demo_entry_dave :: ldap_entry where
  "demo_entry_dave =
     \<lparr>entry_attributes = [(''uid'', ''dave''), (''mail'', ''[]''), (''cn'', ''Dave'')],
      entry_dn = ''uid=dave,ou=people,dc=x''\<rparr>"

definition demo_env_no_mail :: env where
  "demo_env_no_mail =
     demo_env\<lparr>ldap_search :=
       (\<lambda>url bind_dn base search_filter attributes. SearchReturns True [demo_entry_dave])\<rparr>"

text \<open>The records that the fetch builds from the entries of alice and bob.\<close>

definition demo_record_alice :: user_data where
  "demo_record_alice =
     \<lparr>ud_uid = ''alice'', ud_email = ''alice@x.org'', ud_name = ''Alice'',
      ud_dn = ''uid=alice,ou=people,dc=x''\<rparr>"

definition demo_record_bob :: user_data where
  "demo_record_bob =
     \<lparr>ud_uid = ''bob'', ud_email = ''bob@x.org'', ud_name = ''Bob'',
      ud_dn = ''uid=bob,ou=people,dc=x''\<rparr>"

lemmas demo_defs =
  demo_config_def demo_alice_def demo_carol_def demo_other_def demo_account_def
  demo_tables_def demo_world_def demo_entries_def demo_env_def demo_env_unreachable_def
  demo_env_search_raises_def demo_env_search_refused_def
  demo_config_t2_def demo_world_two_tenants_def demo_stopped_def
  demo_entry_dave_def demo_env_no_mail_def demo_record_alice_def demo_record_bob_def

section \<open>Basic facts\<close>

lemma world_simps [simp]:
  "durable (commit w) = session w" "session (commit w) = session w"
  "uuid_count (commit w) = uuid_count w" "ldap_log (commit w) = ldap_log w"
  "durable (set_ldap_users us w) = durable w"
  "session (set_ldap_users us w) = (session w)\<lparr>ldap_users := us\<rparr>"
  "uuid_count (set_ldap_users us w) = uuid_count w"
  "ldap_log (set_ldap_users us w) = ldap_log w"
  "durable (set_ldap_configs cs w) = durable w"
  "session (set_ldap_configs cs w) = (session w)\<lparr>ldap_configs := cs\<rparr>"
  "uuid_count (set_ldap_configs cs w) = uuid_count w"
  "ldap_log (set_ldap_configs cs w) = ldap_log w"
  "durable (log_event ev w) = durable w"
  "session (log_event ev w) = session w"
  "uuid_count (log_event ev w) = uuid_count w"
  "ldap_log (log_event ev w) = ldap_log w @ [ev]"
  by (simp_all add: commit_def set_ldap_users_def set_ldap_configs_def log_event_def)

lemma first_index_None: "first_index P xs = None \<longleftrightarrow> (\<forall>x\<in>set xs. \<not> P x)"
  by (induction xs) auto

lemma search_tables:
  "search_ldap_users e config w = (r, w') \<Longrightarrow>
   durable w' = durable w \<and> session w' = session w \<and> uuid_count w' = uuid_count w"
  by (auto simp: search_ldap_users_def create_ldap_connection_def Let_def
      split: if_splits search_result.splits)


lemma sync_user_durable: "durable (fst (sync_user e t r s)) = durable (fst s)"
  by (cases s) (simp add: sync_user_def split: option.splits)

lemma sync_users_loop_durable: "durable (fst (sync_users_loop e t rs s)) = durable (fst s)"
  by (induction rs arbitrary: s) (simp_all add: sync_user_durable)

lemma disable_user_durable: "durable (fst (disable_user e t d s)) = durable (fst s)"
  by (cases s) (simp add: disable_user_def split: option.splits)

lemma disable_users_loop_durable:
  "durable (fst (disable_users_loop e t ds s)) = durable (fst s)"
  by (induction ds arbitrary: s) (simp_all add: disable_user_durable)

lemma apply_sync_durable: "durable (fst (apply_sync e t ci us w)) = durable w"
proof -
  have "durable (fst (disable_users_loop e t ds (sync_users_loop e t us (w, st)))) = durable w"
    for ds st
    by (simp add: disable_users_loop_durable sync_users_loop_durable)
  then show ?thesis
    by (simp add: apply_sync_def Let_def touch_config_def split: prod.splits) (metis fst_conv)
qed

section \<open>The two loops of \<^verbatim>\<open>sync_ldap_users\<close>\<close>

lemma first_index_Some_iff:
  "first_index P xs = Some i \<longleftrightarrow> i < length xs \<and> P (xs ! i) \<and> (\<forall>j<i. \<not> P (xs ! j))"
proof (induction xs arbitrary: i)
  case Nil
  then show ?case by simp
next
  case (Cons x xs)
  show ?case
  proof (cases "P x")
    case True
    then show ?thesis by (cases i) auto
  next
    case False
    show ?thesis
    proof (cases i)
      case 0
      with False show ?thesis by auto
    next
      case (Suc k)
      have "(\<forall>j<Suc k. \<not> P ((x # xs) ! j)) \<longleftrightarrow> (\<forall>j<k. \<not> P (xs ! j))"
        using False by (auto simp: less_Suc_eq_0_disj)
      with False Suc Cons.IH[of k] show ?thesis by auto
    qed
  qed
qed

lemma first_index_None_iff_nth:
  "first_index P xs = None \<longleftrightarrow> (\<forall>j<length xs. \<not> P (xs ! j))"
  by (simp add: first_index_None all_set_conv_all_nth)

lemma sync_users_loop_fold: "sync_users_loop e t rs s = fold (sync_user e t) rs s"
  by (induction rs arbitrary: s) simp_all

lemma disable_users_loop_fold: "disable_users_loop e t ds s = fold (disable_user e t) ds s"
  by (induction ds arbitrary: s) simp_all

lemma sync_users_loop_snoc:
  "sync_users_loop e t (rs @ [r]) s = sync_user e t r (sync_users_loop e t rs s)"
  by (simp add: sync_users_loop_fold)

lemma disable_users_loop_snoc:
  "disable_users_loop e t (ds @ [d]) s = disable_user e t d (disable_users_loop e t ds s)"
  by (simp add: disable_users_loop_fold)

lemma sync_user_hit:
  "first_index (is_ldap_user t (ud_uid r)) (US s) = Some i \<Longrightarrow>
   US (sync_user e t r s) = (US s)[i := refresh_user e r (US s ! i)] \<and>
   snd (sync_user e t r s) = (snd s)\<lparr>updated := updated (snd s) + 1\<rparr>"
  by (cases s) (simp add: sync_user_def)

lemma sync_user_miss:
  "first_index (is_ldap_user t (ud_uid r)) (US s) = None \<Longrightarrow>
   US (sync_user e t r s) =
     US s @ [new_ldap_user e (uuid_generate_v4 e (uuid_count (fst s))) t r] \<and>
   snd (sync_user e t r s) = (snd s)\<lparr>created := created (snd s) + 1\<rparr>"
  by (cases s) (simp add: sync_user_def)

lemma refresh_user_fields [simp]:
  "lu_id (refresh_user e r u) = lu_id u"
  "lu_tenant_id (refresh_user e r u) = lu_tenant_id u"
  "lu_ldap_uid (refresh_user e r u) = lu_ldap_uid u"
  "lu_account_id (refresh_user e r u) = lu_account_id u"
  "lu_created_at (refresh_user e r u) = lu_created_at u"
  "lu_email (refresh_user e r u) = ud_email r"
  "lu_name (refresh_user e r u) = ud_name r"
  "lu_ldap_dn (refresh_user e r u) = ud_dn r"
  "lu_enabled (refresh_user e r u) = True"
  "lu_last_sync_at (refresh_user e r u) = utc_now e"
  "lu_updated_at (refresh_user e r u) = utc_now e"
  by (simp_all add: refresh_user_def naive_utc_now_def Let_def)

lemma new_ldap_user_fields [simp]:
  "lu_tenant_id (new_ldap_user e n t r) = t"
  "lu_ldap_uid (new_ldap_user e n t r) = ud_uid r"
  "lu_account_id (new_ldap_user e n t r) = None"
  "lu_email (new_ldap_user e n t r) = ud_email r"
  "lu_name (new_ldap_user e n t r) = ud_name r"
  "lu_ldap_dn (new_ldap_user e n t r) = ud_dn r"
  "lu_enabled (new_ldap_user e n t r) = True"
  "lu_last_sync_at (new_ldap_user e n t r) = utc_now e"
  "lu_updated_at (new_ldap_user e n t r) = utc_now e"
  by (simp_all add: new_ldap_user_def naive_utc_now_def)

lemma same_keys_refl [simp]: "same_keys us us"
  by (simp add: same_keys_def)

lemma same_keys_trans: "same_keys a b \<Longrightarrow> same_keys b c \<Longrightarrow> same_keys a c"
  by (auto simp: same_keys_def)

lemma same_keys_sync_user: "same_keys (US s) (US (sync_user e t r s))"
proof (cases "first_index (is_ldap_user t (ud_uid r)) (US s)")
  case None
  then show ?thesis
    by (simp add: sync_user_miss same_keys_def nth_append)
next
  case (Some i)
  then have "i < length (US s)"
    by (simp add: first_index_Some_iff)
  with sync_user_hit[OF Some, of e] show ?thesis
    by (auto simp: same_keys_def nth_list_update)
qed

lemma same_keys_sync_users_loop: "same_keys (US s) (US (sync_users_loop e t rs s))"
proof (induction rs rule: rev_induct)
  case Nil
  then show ?case by simp
next
  case (snoc r rs)
  then show ?case
    using same_keys_sync_user same_keys_trans by (fastforce simp: sync_users_loop_snoc)
qed

lemma same_keys_first_index:
  assumes "same_keys us us'" "first_index (is_ldap_user t uid) us = Some i"
  shows "first_index (is_ldap_user t uid) us' = Some i"
  using assms unfolding same_keys_def first_index_Some_iff is_ldap_user_def
  by (metis (no_types, lifting) less_le_trans less_trans)

lemma same_keys_first_index_rev:
  assumes "same_keys us us'" "first_index (is_ldap_user t uid) us' = Some i" "i < length us"
  shows "first_index (is_ldap_user t uid) us = Some i"
  using assms unfolding same_keys_def first_index_Some_iff is_ldap_user_def
  by (metis (no_types, lifting) less_trans)


lemma sync_user_other_row:
  assumes "i < length (US s)" "first_index (is_ldap_user t (ud_uid r)) (US s) \<noteq> Some i"
  shows "US (sync_user e t r s) ! i = US s ! i"
proof (cases "first_index (is_ldap_user t (ud_uid r)) (US s)")
  case None
  with assms show ?thesis by (simp add: sync_user_miss nth_append)
next
  case (Some k)
  with assms have "k \<noteq> i" by simp
  with sync_user_hit[OF Some, of e] show ?thesis by simp
qed


lemma sync_users_loop_new_row:
  assumes "length (US s) \<le> j" "j < length (US (sync_users_loop e t rs s))"
  shows "lu_tenant_id (US (sync_users_loop e t rs s) ! j) = t \<and>
         lu_ldap_uid (US (sync_users_loop e t rs s) ! j) \<in> ud_uid ` set rs \<and>
         lu_account_id (US (sync_users_loop e t rs s) ! j) = None"
  using assms(2)
proof (induction rs rule: rev_induct)
  case Nil
  with assms(1) show ?case by simp
next
  case (snoc r rs)
  let ?sn = "sync_users_loop e t rs s"
  show ?case
  proof (cases "first_index (is_ldap_user t (ud_uid r)) (US ?sn)")
    case None
    from sync_user_miss[OF None, of e] snoc show ?thesis
      by (cases "j < length (US ?sn)") (auto simp: sync_users_loop_snoc nth_append)
  next
    case (Some k)
    then have k: "k < length (US ?sn)" "is_ldap_user t (ud_uid r) (US ?sn ! k)"
      by (simp_all add: first_index_Some_iff)
    from sync_user_hit[OF Some, of e] have
      eq: "US (sync_user e t r ?sn) = (US ?sn)[k := refresh_user e r (US ?sn ! k)]"
      by simp
    with snoc.prems have j: "j < length (US ?sn)"
      by (simp add: sync_users_loop_snoc)
    from snoc.IH[OF j] k show ?thesis
      by (cases "j = k") (auto simp: sync_users_loop_snoc eq is_ldap_user_def)
  qed
qed

lemma latest_snoc: "latest uid (rs @ [r]) = (if ud_uid r = uid then Some r else latest uid rs)"
  by (simp add: latest_def)

lemma latest_Nil [simp]: "latest uid [] = None"
  by (simp add: latest_def)

lemma latest_Some_iff: "(\<exists>d. latest uid rs = Some d) \<longleftrightarrow> uid \<in> ud_uid ` set rs"
proof -
  have "latest uid rs = None \<longleftrightarrow> uid \<notin> ud_uid ` set rs"
    by (auto simp: latest_def find_None_iff)
  then show ?thesis by auto
qed

lemma sync_user_latest:
  "\<exists>i. first_index (is_ldap_user t (ud_uid r)) (US (sync_user e t r s)) = Some i \<and>
       refreshed_from e r (US (sync_user e t r s) ! i)"
proof (cases "first_index (is_ldap_user t (ud_uid r)) (US s)")
  case None
  then have no: "\<forall>j<length (US s). \<not> is_ldap_user t (ud_uid r) (US s ! j)"
    by (simp add: first_index_None_iff_nth)
  have "first_index (is_ldap_user t (ud_uid r))
          (US s @ [new_ldap_user e (uuid_generate_v4 e (uuid_count (fst s))) t r]) =
        Some (length (US s))"
    using no by (simp add: first_index_Some_iff nth_append is_ldap_user_def)
  with sync_user_miss[OF None, of e] show ?thesis
    by (simp add: refreshed_from_def)
next
  case (Some k)
  then have k: "k < length (US s)"
    by (simp add: first_index_Some_iff)
  from same_keys_first_index[OF same_keys_sync_user Some, of e t r]
  have "first_index (is_ldap_user t (ud_uid r)) (US (sync_user e t r s)) = Some k" .
  moreover have "refreshed_from e r (US (sync_user e t r s) ! k)"
    using sync_user_hit[OF Some, of e] k by (simp add: refreshed_from_def)
  ultimately show ?thesis by blast
qed

lemma sync_user_keeps_other:
  assumes "first_index (is_ldap_user t uid) (US s) = Some i" "ud_uid r \<noteq> uid"
  shows "first_index (is_ldap_user t uid) (US (sync_user e t r s)) = Some i \<and>
         US (sync_user e t r s) ! i = US s ! i"
proof -
  from assms(1) have i: "i < length (US s)" "lu_ldap_uid (US s ! i) = uid"
    by (simp_all add: first_index_Some_iff is_ldap_user_def)
  have "first_index (is_ldap_user t (ud_uid r)) (US s) \<noteq> Some i"
    using i assms(2) by (auto simp: first_index_Some_iff is_ldap_user_def)
  then have "US (sync_user e t r s) ! i = US s ! i"
    by (rule sync_user_other_row[OF i(1)])
  with same_keys_first_index[OF same_keys_sync_user assms(1), of e t r] show ?thesis
    by simp
qed

lemma sync_users_loop_latest:
  assumes "latest uid rs = Some d"
  shows "\<exists>i. first_index (is_ldap_user t uid) (US (sync_users_loop e t rs s)) = Some i \<and>
             refreshed_from e d (US (sync_users_loop e t rs s) ! i)"
  using assms
proof (induction rs arbitrary: d rule: rev_induct)
  case Nil
  then show ?case by simp
next
  case (snoc r rs)
  let ?sn = "sync_users_loop e t rs s"
  show ?case
  proof (cases "ud_uid r = uid")
    case True
    with snoc.prems have "d = r"
      by (simp add: latest_snoc)
    with True sync_user_latest[of t r e ?sn] show ?thesis
      by (simp add: sync_users_loop_snoc)
  next
    case False
    with snoc.prems have "latest uid rs = Some d"
      by (simp add: latest_snoc)
    from snoc.IH[OF this] obtain i where
      i: "first_index (is_ldap_user t uid) (US ?sn) = Some i" "refreshed_from e d (US ?sn ! i)"
      by blast
    from sync_user_keeps_other[OF i(1) False, of e] i(2) show ?thesis
      by (auto simp: sync_users_loop_snoc)
  qed
qed

lemma sync_user_stats:
  "total (snd (sync_user e t r s)) = total (snd s) \<and>
   disabled (snd (sync_user e t r s)) = disabled (snd s) \<and>
   created (snd (sync_user e t r s)) =
     created (snd s) + (if first_index (is_ldap_user t (ud_uid r)) (US s) = None then 1 else 0) \<and>
   updated (snd (sync_user e t r s)) =
     updated (snd s) + (if first_index (is_ldap_user t (ud_uid r)) (US s) = None then 0 else 1) \<and>
   length (US (sync_user e t r s)) =
     length (US s) + (if first_index (is_ldap_user t (ud_uid r)) (US s) = None then 1 else 0)"
proof (cases "first_index (is_ldap_user t (ud_uid r)) (US s)")
  case None
  with sync_user_miss[OF None, of e] show ?thesis by simp
next
  case (Some k)
  with sync_user_hit[OF Some, of e] show ?thesis by simp
qed

lemma sync_users_loop_miss_iff:
  "first_index (is_ldap_user t uid) (US (sync_users_loop e t rs s)) = None \<longleftrightarrow>
   first_index (is_ldap_user t uid) (US s) = None \<and> uid \<notin> ud_uid ` set rs"
proof
  assume none: "first_index (is_ldap_user t uid) (US (sync_users_loop e t rs s)) = None"
  have "first_index (is_ldap_user t uid) (US s) = None"
  proof (rule ccontr)
    assume "first_index (is_ldap_user t uid) (US s) \<noteq> None"
    then obtain i where "first_index (is_ldap_user t uid) (US s) = Some i" by auto
    from same_keys_first_index[OF same_keys_sync_users_loop this, of e t rs] none
    show False by simp
  qed
  moreover have "uid \<notin> ud_uid ` set rs"
  proof
    assume "uid \<in> ud_uid ` set rs"
    then obtain d where "latest uid rs = Some d"
      using latest_Some_iff by blast
    from sync_users_loop_latest[OF this, of t e s] none show False by auto
  qed
  ultimately show "first_index (is_ldap_user t uid) (US s) = None \<and> uid \<notin> ud_uid ` set rs" ..
next
  let ?us' = "US (sync_users_loop e t rs s)"
  assume a: "first_index (is_ldap_user t uid) (US s) = None \<and> uid \<notin> ud_uid ` set rs"
  have "\<not> is_ldap_user t uid (?us' ! j)" if j: "j < length ?us'" for j
  proof (cases "j < length (US s)")
    case True
    with a have "\<not> is_ldap_user t uid (US s ! j)"
      by (simp add: first_index_None_iff_nth)
    with same_keys_sync_users_loop[of s e t rs] True show ?thesis
      by (simp add: same_keys_def is_ldap_user_def)
  next
    case False
    with sync_users_loop_new_row[of s j e t rs] j a show ?thesis
      by (auto simp: is_ldap_user_def)
  qed
  then show "first_index (is_ldap_user t uid) ?us' = None"
    by (simp add: first_index_None_iff_nth)
qed

lemma sync_users_loop_stats:
  "total (snd (sync_users_loop e t rs s)) = total (snd s) \<and>
   disabled (snd (sync_users_loop e t rs s)) = disabled (snd s) \<and>
   created (snd (sync_users_loop e t rs s)) = created (snd s) + card (new_uids t rs (US s)) \<and>
   updated (snd (sync_users_loop e t rs s)) + card (new_uids t rs (US s)) =
     updated (snd s) + length rs \<and>
   length (US (sync_users_loop e t rs s)) = length (US s) + card (new_uids t rs (US s))"
proof (induction rs rule: rev_induct)
  case Nil
  then show ?case by (simp add: new_uids_def)
next
  case (snoc r rs)
  let ?sn = "sync_users_loop e t rs s"
  have fin: "finite (new_uids t rs (US s))"
    by (simp add: new_uids_def)
  show ?case
  proof (cases "first_index (is_ldap_user t (ud_uid r)) (US ?sn) = None")
    case True
    then have new: "first_index (is_ldap_user t (ud_uid r)) (US s) = None" "ud_uid r \<notin> ud_uid ` set rs"
      by (simp_all add: sync_users_loop_miss_iff)
    then have "new_uids t (rs @ [r]) (US s) = insert (ud_uid r) (new_uids t rs (US s))"
      "ud_uid r \<notin> new_uids t rs (US s)"
      by (auto simp: new_uids_def)
    then have "card (new_uids t (rs @ [r]) (US s)) = Suc (card (new_uids t rs (US s)))"
      using fin by simp
    with snoc sync_user_stats[of e t r ?sn] True show ?thesis
      by (simp add: sync_users_loop_snoc)
  next
    case False
    then have "first_index (is_ldap_user t (ud_uid r)) (US s) \<noteq> None \<or> ud_uid r \<in> ud_uid ` set rs"
      by (simp add: sync_users_loop_miss_iff)
    then have "new_uids t (rs @ [r]) (US s) = new_uids t rs (US s)"
      by (auto simp: new_uids_def)
    with snoc sync_user_stats[of e t r ?sn] False show ?thesis
      by (simp add: sync_users_loop_snoc)
  qed
qed

lemma disable_user_hit:
  assumes "first_index (is_ldap_user t d) (US s) = Some i" "lu_enabled (US s ! i)"
  shows "US (disable_user e t d s) =
           (US s)[i := (US s ! i)\<lparr>lu_enabled := False, lu_updated_at := utc_now e\<rparr>] \<and>
         snd (disable_user e t d s) = (snd s)\<lparr>disabled := disabled (snd s) + 1\<rparr>"
  using assms by (cases s) (simp add: disable_user_def naive_utc_now_def)

lemma disable_user_skip:
  assumes "first_index (is_ldap_user t d) (US s) = None \<or>
           (\<exists>i. first_index (is_ldap_user t d) (US s) = Some i \<and> \<not> lu_enabled (US s ! i))"
  shows "disable_user e t d s = s"
  using assms by (cases s) (auto simp: disable_user_def)

lemma disable_user_cases:
  obtains (hit) i where "first_index (is_ldap_user t d) (US s) = Some i" "lu_enabled (US s ! i)"
  | (skip) "disable_user e t d s = s"
    "first_index (is_ldap_user t d) (US s) = None \<or>
     (\<exists>i. first_index (is_ldap_user t d) (US s) = Some i \<and> \<not> lu_enabled (US s ! i))"
  using disable_user_skip[of t d s e] by (cases "first_index (is_ldap_user t d) (US s)") auto

lemma same_keys_disable_user:
  "same_keys (US s) (US (disable_user e t d s)) \<and> length (US (disable_user e t d s)) = length (US s)"
proof (cases rule: disable_user_cases[where t = t and d = d and s = s and e = e])
  case (hit i)
  then have "i < length (US s)"
    by (simp add: first_index_Some_iff)
  with disable_user_hit[OF hit, of e] show ?thesis
    by (auto simp: same_keys_def nth_list_update)
next
  case skip
  then show ?thesis by simp
qed

lemma same_keys_disable_users_loop:
  "same_keys (US s) (US (disable_users_loop e t ds s)) \<and>
   length (US (disable_users_loop e t ds s)) = length (US s)"
proof (induction ds rule: rev_induct)
  case Nil
  then show ?case by simp
next
  case (snoc d ds)
  with same_keys_disable_user[of "disable_users_loop e t ds s" e t d] show ?case
    by (auto simp: disable_users_loop_snoc intro: same_keys_trans)
qed

lemma disable_user_other_row:
  assumes "first_index (is_ldap_user t d) (US s) \<noteq> Some i"
  shows "US (disable_user e t d s) ! i = US s ! i"
proof (cases rule: disable_user_cases[where t = t and d = d and s = s and e = e])
  case (hit k)
  with assms have "k \<noteq> i" by auto
  with disable_user_hit[OF hit, of e] show ?thesis by simp
next
  case skip
  then show ?thesis by simp
qed

lemma disable_users_loop_other_row:
  assumes "i < length (US s)"
    and "\<forall>d\<in>set ds. first_index (is_ldap_user t d) (US s) \<noteq> Some i"
  shows "US (disable_users_loop e t ds s) ! i = US s ! i"
  using assms(2)
proof (induction ds rule: rev_induct)
  case Nil
  then show ?case by simp
next
  case (snoc d ds)
  let ?sn = "disable_users_loop e t ds s"
  have keys: "same_keys (US s) (US ?sn)"
    using same_keys_disable_users_loop by blast
  have "first_index (is_ldap_user t d) (US ?sn) \<noteq> Some i"
    using same_keys_first_index_rev[OF keys _ assms(1)] snoc.prems by auto
  then have "US (disable_user e t d ?sn) ! i = US ?sn ! i"
    by (rule disable_user_other_row)
  with snoc show ?case
    by (simp add: disable_users_loop_snoc)
qed

lemma first_index_other_uid:
  assumes "first_index (is_ldap_user t d) us = Some i" "d' \<noteq> d"
  shows "first_index (is_ldap_user t d') us \<noteq> Some i"
  using assms by (auto simp: first_index_Some_iff is_ldap_user_def)


lemma disable_user_stats:
  "total (snd (disable_user e t d s)) = total (snd s) \<and>
   created (snd (disable_user e t d s)) = created (snd s) \<and>
   updated (snd (disable_user e t d s)) = updated (snd s) \<and>
   disabled (snd (disable_user e t d s)) =
     disabled (snd s) +
     (if \<exists>i. first_index (is_ldap_user t d) (US s) = Some i \<and> lu_enabled (US s ! i) then 1 else 0)"
proof (cases rule: disable_user_cases[where t = t and d = d and s = s and e = e])
  case (hit i)
  with disable_user_hit[OF hit, of e] show ?thesis by auto
next
  case skip
  then show ?thesis by auto
qed

lemma disable_users_loop_stats:
  assumes "distinct ds"
  shows "total (snd (disable_users_loop e t ds s)) = total (snd s) \<and>
   created (snd (disable_users_loop e t ds s)) = created (snd s) \<and>
   updated (snd (disable_users_loop e t ds s)) = updated (snd s) \<and>
   disabled (snd (disable_users_loop e t ds s)) = disabled (snd s) + card (enabled_uids t ds (US s))"
  using assms
proof (induction ds rule: rev_induct)
  case Nil
  then show ?case by (simp add: enabled_uids_def)
next
  case (snoc d ds)
  let ?sn = "disable_users_loop e t ds s"
  let ?hit = "\<lambda>us. \<exists>i. first_index (is_ldap_user t d) us = Some i \<and> lu_enabled (us ! i)"
  from snoc.prems have d: "d \<notin> set ds" "distinct ds" by simp_all
  have keys: "same_keys (US s) (US ?sn)"
    using same_keys_disable_users_loop by blast
  have fin: "finite (enabled_uids t ds (US s))"
    by (simp add: enabled_uids_def)
  have same: "?hit (US ?sn) \<longleftrightarrow> ?hit (US s)"
  proof -
    have row: "US ?sn ! i = US s ! i" if "first_index (is_ldap_user t d) (US s) = Some i" for i
    proof -
      from that have "i < length (US s)" by (simp add: first_index_Some_iff)
      moreover have "\<forall>x\<in>set ds. first_index (is_ldap_user t x) (US s) \<noteq> Some i"
      proof
        fix x
        assume "x \<in> set ds"
        with d(1) have "x \<noteq> d" by (cases "x = d") simp_all
        then show "first_index (is_ldap_user t x) (US s) \<noteq> Some i"
          by (rule first_index_other_uid[OF that])
      qed
      ultimately show ?thesis by (rule disable_users_loop_other_row)
    qed
    have fi: "first_index (is_ldap_user t d) (US ?sn) = Some i \<longleftrightarrow>
              first_index (is_ldap_user t d) (US s) = Some i" for i
      using same_keys_first_index[OF keys] same_keys_first_index_rev[OF keys]
        same_keys_disable_users_loop[of s e t ds]
      by (metis first_index_Some_iff)
    show ?thesis using row fi by auto
  qed
  have "enabled_uids t (ds @ [d]) (US s) =
          (if ?hit (US s) then insert d (enabled_uids t ds (US s)) else enabled_uids t ds (US s))"
    by (auto simp: enabled_uids_def)
  moreover have "d \<notin> enabled_uids t ds (US s)"
    using d(1) by (simp add: enabled_uids_def)
  ultimately have "card (enabled_uids t (ds @ [d]) (US s)) =
      card (enabled_uids t ds (US s)) + (if ?hit (US s) then 1 else 0)"
    using fin by simp
  with snoc.IH[OF d(2)] disable_user_stats[of e t d ?sn] same show ?case
    by (simp add: disable_users_loop_snoc)
qed

section \<open>The fetch and the run\<close>

lemma collect_users_filter:
  "collect_users config entries acc =
     acc @ filter valid_user_data (map (entry_user_data config) entries)"
  by (induction entries arbitrary: acc) (simp_all add: Let_def valid_user_data_def)

lemma search_ldap_users_Inr:
  assumes "ldap_auto_bind e (lc_server_url c) (lc_bind_dn c) (lc_bind_password c)"
    and "ldap_search e (lc_server_url c) (lc_bind_dn c) (lc_base_dn c) (search_filter_of c)
           (search_attributes c) = SearchReturns found entries"
  shows "fst (search_ldap_users e c w) =
           Inr (filter valid_user_data (map (entry_user_data c) entries))"
  using assms
  by (simp add: search_ldap_users_def create_ldap_connection_def Let_def collect_users_filter)

lemma search_ldap_users_InrD:
  assumes "fst (search_ldap_users e c w) = Inr rs"
  shows "ldap_auto_bind e (lc_server_url c) (lc_bind_dn c) (lc_bind_password c) \<and>
         (\<exists>found entries. ldap_search e (lc_server_url c) (lc_bind_dn c) (lc_base_dn c)
                       (search_filter_of c) (search_attributes c) = SearchReturns found entries \<and>
                    rs = filter valid_user_data (map (entry_user_data c) entries))"
  using assms
  by (auto simp: search_ldap_users_def create_ldap_connection_def Let_def collect_users_filter
      split: if_splits search_result.splits)

lemma apply_sync_loops:
  "apply_sync e t ci rs w =
     (touch_config e ci
        (fst (disable_users_loop e t (uids_to_disable (existing_uids t w) (map ud_uid rs))
               (sync_users_loop e t rs
                  (w, \<lparr>total = length rs, created = 0, updated = 0, disabled = 0\<rparr>)))),
      snd (disable_users_loop e t (uids_to_disable (existing_uids t w) (map ud_uid rs))
             (sync_users_loop e t rs
                (w, \<lparr>total = length rs, created = 0, updated = 0, disabled = 0\<rparr>))))"
  by (simp add: apply_sync_def Let_def split: prod.splits)

lemma touch_config_users [simp]:
  "ldap_users (session (touch_config e ci w)) = ldap_users (session w)"
  by (simp add: touch_config_def)

lemma sync_ldap_users_run:
  assumes "get_ldap_config t w = Some ci"
    and "fst (search_ldap_users e (ldap_configs (session w) ! ci) w) = Inr rs"
  obtains w1 where "session w1 = session w"
    and "fst (sync_ldap_users e t w) =
           Inr (snd (disable_users_loop e t (uids_to_disable (existing_uids t w) (map ud_uid rs))
                  (sync_users_loop e t rs
                     (w1, \<lparr>total = length rs, created = 0, updated = 0, disabled = 0\<rparr>))))"
    and "ldap_users (session (snd (sync_ldap_users e t w))) =
           US (disable_users_loop e t (uids_to_disable (existing_uids t w) (map ud_uid rs))
                  (sync_users_loop e t rs
                     (w1, \<lparr>total = length rs, created = 0, updated = 0, disabled = 0\<rparr>)))"
proof -
  obtain r w1 where s: "search_ldap_users e (ldap_configs (session w) ! ci) w = (r, w1)"
    by (cases "search_ldap_users e (ldap_configs (session w) ! ci) w")
  with assms(2) have r: "r = Inr rs" by simp
  from search_tables[OF s] have w1: "session w1 = session w" by simp
  then have ex: "existing_uids t w1 = existing_uids t w"
    by (simp add: existing_uids_def)
  have "sync_ldap_users e t w =
          (Inr (snd (apply_sync e t ci rs w1)), commit (fst (apply_sync e t ci rs w1)))"
    using assms(1) s r by (simp add: sync_ldap_users_def split: prod.splits)
  then have "fst (sync_ldap_users e t w) = Inr (snd (apply_sync e t ci rs w1))"
    and "ldap_users (session (snd (sync_ldap_users e t w))) =
         ldap_users (session (fst (apply_sync e t ci rs w1)))"
    by simp_all
  then show ?thesis
    using w1 that unfolding apply_sync_loops ex by simp
qed

lemma without_invalid_simps [simp]:
  "ldap_auto_bind (without_invalid c e) = ldap_auto_bind e"
  "utc_now (without_invalid c e) = utc_now e"
  "uuid_generate_v4 (without_invalid c e) = uuid_generate_v4 e"
  "ldap_search (without_invalid c e) url bind_dn base f attrs =
     (case ldap_search e url bind_dn base f attrs of
        SearchRaises \<Rightarrow> SearchRaises
      | SearchReturns found entries \<Rightarrow>
          SearchReturns found (filter (\<lambda>entry. valid_user_data (entry_user_data c entry)) entries))"
  by (simp_all add: without_invalid_def)

lemma sync_user_without_invalid: "sync_user (without_invalid c e) = sync_user e"
  by (simp add: sync_user_def refresh_user_def new_ldap_user_def naive_utc_now_def fun_eq_iff
      split: option.splits)

lemma disable_user_without_invalid: "disable_user (without_invalid c e) = disable_user e"
  by (simp add: disable_user_def naive_utc_now_def fun_eq_iff split: option.splits)

lemma apply_sync_without_invalid: "apply_sync (without_invalid c e) = apply_sync e"
  by (simp add: apply_sync_def fun_eq_iff sync_users_loop_fold disable_users_loop_fold
      sync_user_without_invalid disable_user_without_invalid touch_config_def naive_utc_now_def)

lemma filter_valid_twice:
  "filter valid_user_data
     (map (entry_user_data c) (filter (\<lambda>entry. valid_user_data (entry_user_data c entry)) entries)) =
   filter valid_user_data (map (entry_user_data c) entries)"
  by (induction entries) simp_all

lemma search_without_invalid:
  "search_ldap_users (without_invalid c e) c w = search_ldap_users e c w"
  by (simp add: search_ldap_users_def create_ldap_connection_def Let_def collect_users_filter
      filter_valid_twice split: search_result.splits)

text \<open>
  When the search returns, the records of the fetch are the entries whose uid text and
  address text are both non-empty, in order: an entry with an empty text is left out and
  raises nothing. The run then returns statistics whose \<^verbatim>\<open>total\<close> is the number of the
  entries kept; every row it adds carries the uid of an entry kept; and the whole run (result
  and state) is the run on the directory without the entries left out.
\<close>

lemma empty_text_records_skipped:
  assumes "get_ldap_config tenant_id w = Some ci"
    and "config = ldap_configs (session w) ! ci"
    and "ldap_auto_bind e (lc_server_url config) (lc_bind_dn config) (lc_bind_password config)"
    and "ldap_search e (lc_server_url config) (lc_bind_dn config) (lc_base_dn config)
           (search_filter_of config) (search_attributes config) = SearchReturns found entries"
  shows "fst (search_ldap_users e config w) =
           Inr (filter valid_user_data (map (entry_user_data config) entries)) \<and>
         (\<exists>stats. fst (sync_ldap_users e tenant_id w) = Inr stats \<and>
                  total stats = length (filter valid_user_data (map (entry_user_data config) entries))) \<and>
         (\<forall>j. length (ldap_users (session w)) \<le> j \<and>
              j < length (ldap_users (session (snd (sync_ldap_users e tenant_id w)))) \<longrightarrow>
              (\<exists>entry\<in>set entries. valid_user_data (entry_user_data config entry) \<and>
                 lu_ldap_uid (ldap_users (session (snd (sync_ldap_users e tenant_id w))) ! j) =
                 ud_uid (entry_user_data config entry))) \<and>
         sync_ldap_users (without_invalid config e) tenant_id w = sync_ldap_users e tenant_id w"
proof -
  let ?rs = "filter valid_user_data (map (entry_user_data config) entries)"
  have fetch: "fst (search_ldap_users e config w) = Inr ?rs"
    using assms(3,4) by (rule search_ldap_users_Inr)
  then have fetch': "fst (search_ldap_users e (ldap_configs (session w) ! ci) w) = Inr ?rs"
    by (simp add: assms(2))
  obtain w1 where w1: "session w1 = session w"
    and st: "fst (sync_ldap_users e tenant_id w) =
           Inr (snd (disable_users_loop e tenant_id
                  (uids_to_disable (existing_uids tenant_id w) (map ud_uid ?rs))
                  (sync_users_loop e tenant_id ?rs
                     (w1, \<lparr>total = length ?rs, created = 0, updated = 0, disabled = 0\<rparr>))))"
    and us: "ldap_users (session (snd (sync_ldap_users e tenant_id w))) =
           US (disable_users_loop e tenant_id
                  (uids_to_disable (existing_uids tenant_id w) (map ud_uid ?rs))
                  (sync_users_loop e tenant_id ?rs
                     (w1, \<lparr>total = length ?rs, created = 0, updated = 0, disabled = 0\<rparr>)))"
    using sync_ldap_users_run[OF assms(1) fetch'] by blast
  let ?s0 = "(w1, \<lparr>total = length ?rs, created = 0, updated = 0, disabled = 0\<rparr>)"
  let ?s1 = "sync_users_loop e tenant_id ?rs ?s0"
  let ?ds = "uids_to_disable (existing_uids tenant_id w) (map ud_uid ?rs)"
  let ?s2 = "disable_users_loop e tenant_id ?ds ?s1"
  have total: "total (snd ?s2) = length ?rs"
    using disable_users_loop_stats[of ?ds e tenant_id ?s1] sync_users_loop_stats[of e tenant_id ?rs ?s0]
    by (simp add: uids_to_disable_def)
  have rows: "\<exists>entry\<in>set entries. valid_user_data (entry_user_data config entry) \<and>
                 lu_ldap_uid (US ?s2 ! j) = ud_uid (entry_user_data config entry)"
    if j: "length (ldap_users (session w)) \<le> j" "j < length (US ?s2)" for j
  proof -
    have len: "length (US ?s2) = length (US ?s1)" and keys: "same_keys (US ?s1) (US ?s2)"
      using same_keys_disable_users_loop[of ?s1 e tenant_id ?ds] by simp_all
    from j len have j1: "j < length (US ?s1)" by simp
    from j(1) w1 have j0: "length (US ?s0) \<le> j" by simp
    from keys j1 have "lu_ldap_uid (US ?s2 ! j) = lu_ldap_uid (US ?s1 ! j)"
      by (simp add: same_keys_def)
    moreover from sync_users_loop_new_row[OF j0 j1]
    have "lu_ldap_uid (US ?s1 ! j) \<in> ud_uid ` set ?rs" by simp
    ultimately obtain r where "r \<in> set ?rs" "lu_ldap_uid (US ?s2 ! j) = ud_uid r"
      by auto
    then show ?thesis by auto
  qed
  have same: "sync_ldap_users (without_invalid config e) tenant_id w = sync_ldap_users e tenant_id w"
    unfolding sync_ldap_users_def assms(1) assms(2) apply_sync_without_invalid
    by (simp add: search_without_invalid)
  from fetch st total rows same show ?thesis
    unfolding us by blast
qed










section \<open>The local account of a mirrored user\<close>

lemma find_Some_in_set: "find P xs = Some a \<Longrightarrow> a \<in> set xs \<and> P a"
  by (induction xs) (auto split: if_splits)

lemma find_None_set: "find P xs = None \<longleftrightarrow> \<not> (\<exists>a\<in>set xs. P a)"
  by (induction xs) auto

lemma get_or_create_linked:
  assumes "truthy (lu_account_id (ldap_users (session w) ! ui))"
    and "find (\<lambda>a. Some (acc_id a) = lu_account_id (ldap_users (session w) ! ui))
           (accounts (session w)) = Some account"
  shows "get_or_create_local_account e ui tenant_id w = (account, w)"
  using assms by (simp add: get_or_create_local_account_def Let_def)

lemma get_or_create_by_email:
  assumes "\<not> truthy (lu_account_id (ldap_users (session w) ! ui)) \<or>
           find (\<lambda>a. Some (acc_id a) = lu_account_id (ldap_users (session w) ! ui))
             (accounts (session w)) = None"
    and "find (\<lambda>a. acc_email a = lu_email (ldap_users (session w) ! ui))
           (accounts (session w)) = Some account"
  shows "get_or_create_local_account e ui tenant_id w =
           (account,
            commit (set_ldap_users
              ((ldap_users (session w))
                 [ui := (ldap_users (session w) ! ui)
                    \<lparr>lu_account_id := Some (acc_id account), lu_updated_at := utc_now e\<rparr>]) w))"
  using assms by (auto simp: get_or_create_local_account_def Let_def naive_utc_now_def)

lemma get_or_create_new:
  assumes "\<not> truthy (lu_account_id (ldap_users (session w) ! ui)) \<or>
           find (\<lambda>a. Some (acc_id a) = lu_account_id (ldap_users (session w) ! ui))
             (accounts (session w)) = None"
    and "find (\<lambda>a. acc_email a = lu_email (ldap_users (session w) ! ui))
           (accounts (session w)) = None"
    and "account = \<lparr>acc_id = uuid_generate_v4 e (uuid_count w),
                     acc_name = lu_name (ldap_users (session w) ! ui),
                     acc_email = lu_email (ldap_users (session w) ! ui),
                     acc_status = ACTIVE,
                     acc_initialized_at = Some (utc_now e)\<rparr>"
  shows "fst (get_or_create_local_account e ui tenant_id w) = account \<and>
         session (snd (get_or_create_local_account e ui tenant_id w)) =
           (session w)
             \<lparr>accounts := accounts (session w) @ [account],
              ldap_users := (ldap_users (session w))
                 [ui := (ldap_users (session w) ! ui)
                    \<lparr>lu_account_id := Some (acc_id account), lu_updated_at := utc_now e\<rparr>],
              tenant_account_joins := tenant_account_joins (session w) @
                 [\<lparr>taj_tenant_id = tenant_id, taj_account_id = acc_id account,
                   taj_role = NORMAL\<rparr>]\<rparr> \<and>
         durable (snd (get_or_create_local_account e ui tenant_id w)) =
           session (snd (get_or_create_local_account e ui tenant_id w))"
  using assms by (auto simp: get_or_create_local_account_def Let_def naive_utc_now_def)

lemma authenticate_bound:
  assumes "get_ldap_config tenant_id w = Some ci"
    and "first_index (\<lambda>u. lu_tenant_id u = tenant_id \<and> lu_email u = email \<and> lu_enabled u)
           (ldap_users (session w)) = Some ui"
    and "ldap_auto_bind e (lc_server_url (ldap_configs (session w) ! ci))
           (lu_ldap_dn (ldap_users (session w) ! ui)) password"
  obtains w0 where "session w0 = session w" "durable w0 = durable w"
    and "uuid_count w0 = uuid_count w"
    and "authenticate_ldap_user e tenant_id email password w =
           (Inr (fst (get_or_create_local_account e ui tenant_id w0)),
            snd (get_or_create_local_account e ui tenant_id w0))"
proof -
  let ?w0 = "log_event Unbind
     (log_event (Bind (lc_server_url (ldap_configs (session w) ! ci))
                   (lu_ldap_dn (ldap_users (session w) ! ui)) password) w)"
  have "authenticate_ldap_user e tenant_id email password w =
           (Inr (fst (get_or_create_local_account e ui tenant_id ?w0)),
            snd (get_or_create_local_account e ui tenant_id ?w0))"
    using assms by (simp add: authenticate_ldap_user_def Let_def split: prod.splits)
  moreover have "session ?w0 = session w" "durable ?w0 = durable w"
    "uuid_count ?w0 = uuid_count w"
    by simp_all
  ultimately show ?thesis using that by blast
qed

section \<open>Claims\<close>

lemmas run_defs =
  sync_ldap_users_def get_ldap_config_def search_ldap_users_def create_ldap_connection_def
  search_filter_of_def search_attributes_def entry_user_data_def getattr_def
  apply_sync_def existing_uids_def uids_to_disable_def sync_user_def disable_user_def
  is_ldap_user_def refresh_user_def new_ldap_user_def naive_utc_now_def touch_config_def
  Let_def

lemma demo_get_config: "get_ldap_config ''t1'' demo_world = Some 0"
  by (simp add: get_ldap_config_def demo_defs)

lemma demo_get_config_t2: "get_ldap_config ''t2'' demo_world = None"
  by (simp add: get_ldap_config_def demo_defs)

lemma demo_search_unreachable:
  "fst (search_ldap_users demo_env_unreachable (ldap_configs (session demo_world) ! 0) demo_world)
     = Inl (LdapConnectionError, CannotConnect)"
  by (simp add: search_ldap_users_def create_ldap_connection_def demo_defs)

lemma demo_search_raises:
  "fst (search_ldap_users demo_env_search_raises (ldap_configs (session demo_world) ! 0) demo_world)
     = Inl (LdapServiceError, SearchFailed)"
  by (simp add: search_ldap_users_def create_ldap_connection_def demo_defs Let_def)

text \<open>
  C1. The run is not all-or-nothing when the fetch fails without raising. The directory
  refuses the search of tenant \<open>t1\<close>: \<^verbatim>\<open>conn.search\<close> returns \<^verbatim>\<open>False\<close> and leaves no
  entries. \<^verbatim>\<open>sync_ldap_users\<close> discards the truth value, so it does not raise: it returns
  statistics, and the committed tables have the enabled row of carol disabled and the
  configuration stamped with the time of the run.
\<close>

theorem sync_applies_refused_search:
  "ldap_search demo_env_search_refused ''ldap://directory'' ''cn=admin,dc=x'' ''dc=x''
     ''(objectClass=person)'' [''uid'', ''mail'', ''cn'', ''dn''] = SearchReturns False [] \<and>
   fst (sync_ldap_users demo_env_search_refused ''t1'' demo_world) =
     Inr \<lparr>total = 0, created = 0, updated = 0, disabled = 1\<rparr> \<and>
   ldap_users (durable demo_world) = [demo_alice, demo_carol, demo_other] \<and>
   ldap_users (durable (snd (sync_ldap_users demo_env_search_refused ''t1'' demo_world))) =
     [demo_alice, demo_carol\<lparr>lu_enabled := False, lu_updated_at := 100\<rparr>, demo_other] \<and>
   map lc_last_sync_at (ldap_configs (durable demo_world)) = [None] \<and>
   map lc_last_sync_at
     (ldap_configs (durable (snd (sync_ldap_users demo_env_search_refused ''t1'' demo_world)))) =
     [Some 100]"
  by (simp add: run_defs demo_defs)

text \<open>
  \<^verbatim>\<open>sync_ldap_users\<close> has no rollback, and \<^verbatim>\<open>sync_ldap_users_task\<close> goes on to the
  next tenant on the same session when a run raises. The writes of a run that stopped inside
  a loop are therefore still pending when the next run commits: after the run of tenant
  \<open>t2\<close> the committed tables hold the refreshed row of alice of tenant \<open>t1\<close>, while carol
  is not disabled and the configuration of \<open>t1\<close> is not stamped.
\<close>

lemma stopped_run_is_committed_by_next:
  "ldap_users (durable demo_stopped) = [demo_alice, demo_carol, demo_other] \<and>
   fst (sync_ldap_users demo_env ''t2'' demo_stopped) =
     Inr \<lparr>total = 2, created = 1, updated = 1, disabled = 0\<rparr> \<and>
   take 2 (ldap_users (durable (snd (sync_ldap_users demo_env ''t2'' demo_stopped)))) =
     [demo_alice\<lparr>lu_email := ''alice@x.org'', lu_name := ''Alice'',
                  lu_ldap_dn := ''uid=alice,ou=people,dc=x'', lu_enabled := True,
                  lu_last_sync_at := 100, lu_updated_at := 100\<rparr>,
      demo_carol] \<and>
   map lc_last_sync_at (ldap_configs (durable (snd (sync_ldap_users demo_env ''t2'' demo_stopped)))) =
     [None, Some 100]"
  by (simp add: run_defs demo_defs)

lemma sync_ldap_users_fetch_error:
  assumes "get_ldap_config t w = Some ci"
    and "fst (search_ldap_users e (ldap_configs (session w) ! ci) w) = Inl err"
  shows "fst (sync_ldap_users e t w) = Inl err"
proof -
  obtain r w1 where s: "search_ldap_users e (ldap_configs (session w) ! ci) w = (r, w1)"
    by (cases "search_ldap_users e (ldap_configs (session w) ! ci) w")
  with assms(2) have "r = Inl err" by simp
  with s assms(1) show ?thesis
    by (simp add: sync_ldap_users_def)
qed

text \<open>
  C5 (as amended). \<^verbatim>\<open>sync_ldap_users\<close> raises the base class \<^verbatim>\<open>LdapServiceError\<close>
  when the tenant has no enabled configuration and also when the search raises (the two
  differ in the message only), and \<^verbatim>\<open>LdapConnectionError\<close> when the bind of the service
  account raises; an error of the fetch leaves \<^verbatim>\<open>sync_ldap_users\<close> as it is.
  \<^verbatim>\<open>authenticate_ldap_user\<close> raises \<^verbatim>\<open>LdapServiceError\<close> without a configuration,
  \<^verbatim>\<open>LdapUserNotFoundError\<close> without an enabled mirrored user, \<^verbatim>\<open>LdapAuthError\<close>
  whenever the bind of the user raises, whatever made it raise, and nothing when that bind
  succeeds. Every error is an instance of \<^verbatim>\<open>LdapServiceError\<close>; an error of the base
  class is an instance of no other class, and an error of one of the three derived classes
  is an instance of that class and of the base class only.
\<close>

theorem sync_error_kinds:
  "(get_ldap_config tenant_id w = None \<longrightarrow>
      sync_ldap_users e tenant_id w = (Inl (LdapServiceError, NoEnabledConfig), w)) \<and>
   (get_ldap_config tenant_id w = Some ci \<and>
    \<not> ldap_auto_bind e (lc_server_url (ldap_configs (session w) ! ci))
         (lc_bind_dn (ldap_configs (session w) ! ci))
         (lc_bind_password (ldap_configs (session w) ! ci)) \<longrightarrow>
      fst (search_ldap_users e (ldap_configs (session w) ! ci) w) =
        Inl (LdapConnectionError, CannotConnect) \<and>
      fst (sync_ldap_users e tenant_id w) = Inl (LdapConnectionError, CannotConnect)) \<and>
   (get_ldap_config tenant_id w = Some ci \<and>
    ldap_auto_bind e (lc_server_url (ldap_configs (session w) ! ci))
         (lc_bind_dn (ldap_configs (session w) ! ci))
         (lc_bind_password (ldap_configs (session w) ! ci)) \<and>
    ldap_search e (lc_server_url (ldap_configs (session w) ! ci))
         (lc_bind_dn (ldap_configs (session w) ! ci))
         (lc_base_dn (ldap_configs (session w) ! ci))
         (search_filter_of (ldap_configs (session w) ! ci))
         (search_attributes (ldap_configs (session w) ! ci)) = SearchRaises \<longrightarrow>
      fst (search_ldap_users e (ldap_configs (session w) ! ci) w) =
        Inl (LdapServiceError, SearchFailed) \<and>
      fst (sync_ldap_users e tenant_id w) = Inl (LdapServiceError, SearchFailed)) \<and>
   (get_ldap_config tenant_id w = Some ci \<and>
    fst (search_ldap_users e (ldap_configs (session w) ! ci) w) = Inl err \<longrightarrow>
      fst (sync_ldap_users e tenant_id w) = Inl err) \<and>
   (get_ldap_config tenant_id w = None \<longrightarrow>
      fst (authenticate_ldap_user e tenant_id email password w) =
        Inl (LdapServiceError, NoEnabledConfig)) \<and>
   (get_ldap_config tenant_id w = Some ci \<and>
    first_index (\<lambda>u. lu_tenant_id u = tenant_id \<and> lu_email u = email \<and> lu_enabled u)
      (ldap_users (session w)) = None \<longrightarrow>
      fst (authenticate_ldap_user e tenant_id email password w) =
        Inl (LdapUserNotFoundError, UserMissingOrDisabled)) \<and>
   (get_ldap_config tenant_id w = Some ci \<and>
    first_index (\<lambda>u. lu_tenant_id u = tenant_id \<and> lu_email u = email \<and> lu_enabled u)
      (ldap_users (session w)) = Some ui \<and>
    \<not> ldap_auto_bind e (lc_server_url (ldap_configs (session w) ! ci))
         (lu_ldap_dn (ldap_users (session w) ! ui)) password \<longrightarrow>
      fst (authenticate_ldap_user e tenant_id email password w) =
        Inl (LdapAuthError, AuthenticationFailed)) \<and>
   (get_ldap_config tenant_id w = Some ci \<and>
    first_index (\<lambda>u. lu_tenant_id u = tenant_id \<and> lu_email u = email \<and> lu_enabled u)
      (ldap_users (session w)) = Some ui \<and>
    ldap_auto_bind e (lc_server_url (ldap_configs (session w) ! ci))
         (lu_ldap_dn (ldap_users (session w) ! ui)) password \<longrightarrow>
      \<not> isl (fst (authenticate_ldap_user e tenant_id email password w))) \<and>
   isinstance (c, m) LdapServiceError \<and>
   (isinstance (LdapServiceError, m) k \<longleftrightarrow> k = LdapServiceError) \<and>
   (c \<noteq> LdapServiceError \<longrightarrow>
      (isinstance (c, m) k \<longleftrightarrow> k = c \<or> k = LdapServiceError))"
proof (intro conjI impI notI)
  assume "get_ldap_config tenant_id w = None"
  then show "sync_ldap_users e tenant_id w = (Inl (LdapServiceError, NoEnabledConfig), w)"
    by (simp add: sync_ldap_users_def)
next
  assume a: "get_ldap_config tenant_id w = Some ci \<and>
    \<not> ldap_auto_bind e (lc_server_url (ldap_configs (session w) ! ci))
         (lc_bind_dn (ldap_configs (session w) ! ci))
         (lc_bind_password (ldap_configs (session w) ! ci))"
  then show s: "fst (search_ldap_users e (ldap_configs (session w) ! ci) w) =
        Inl (LdapConnectionError, CannotConnect)"
    by (simp add: search_ldap_users_def create_ldap_connection_def)
  from a s show "fst (sync_ldap_users e tenant_id w) = Inl (LdapConnectionError, CannotConnect)"
    by (simp add: sync_ldap_users_fetch_error)
next
  assume a: "get_ldap_config tenant_id w = Some ci \<and>
    ldap_auto_bind e (lc_server_url (ldap_configs (session w) ! ci))
         (lc_bind_dn (ldap_configs (session w) ! ci))
         (lc_bind_password (ldap_configs (session w) ! ci)) \<and>
    ldap_search e (lc_server_url (ldap_configs (session w) ! ci))
         (lc_bind_dn (ldap_configs (session w) ! ci))
         (lc_base_dn (ldap_configs (session w) ! ci))
         (search_filter_of (ldap_configs (session w) ! ci))
         (search_attributes (ldap_configs (session w) ! ci)) = SearchRaises"
  then show s: "fst (search_ldap_users e (ldap_configs (session w) ! ci) w) =
        Inl (LdapServiceError, SearchFailed)"
    by (simp add: search_ldap_users_def create_ldap_connection_def Let_def)
  from a s show "fst (sync_ldap_users e tenant_id w) = Inl (LdapServiceError, SearchFailed)"
    by (simp add: sync_ldap_users_fetch_error)
next
  assume "get_ldap_config tenant_id w = Some ci \<and>
    fst (search_ldap_users e (ldap_configs (session w) ! ci) w) = Inl err"
  then show "fst (sync_ldap_users e tenant_id w) = Inl err"
    by (simp add: sync_ldap_users_fetch_error)
next
  assume "get_ldap_config tenant_id w = None"
  then show "fst (authenticate_ldap_user e tenant_id email password w) =
        Inl (LdapServiceError, NoEnabledConfig)"
    by (simp add: authenticate_ldap_user_def)
next
  assume "get_ldap_config tenant_id w = Some ci \<and>
    first_index (\<lambda>u. lu_tenant_id u = tenant_id \<and> lu_email u = email \<and> lu_enabled u)
      (ldap_users (session w)) = None"
  then show "fst (authenticate_ldap_user e tenant_id email password w) =
        Inl (LdapUserNotFoundError, UserMissingOrDisabled)"
    by (simp add: authenticate_ldap_user_def)
next
  assume "get_ldap_config tenant_id w = Some ci \<and>
    first_index (\<lambda>u. lu_tenant_id u = tenant_id \<and> lu_email u = email \<and> lu_enabled u)
      (ldap_users (session w)) = Some ui \<and>
    \<not> ldap_auto_bind e (lc_server_url (ldap_configs (session w) ! ci))
         (lu_ldap_dn (ldap_users (session w) ! ui)) password"
  then show "fst (authenticate_ldap_user e tenant_id email password w) =
        Inl (LdapAuthError, AuthenticationFailed)"
    by (simp add: authenticate_ldap_user_def Let_def)
next
  assume "get_ldap_config tenant_id w = Some ci \<and>
    first_index (\<lambda>u. lu_tenant_id u = tenant_id \<and> lu_email u = email \<and> lu_enabled u)
      (ldap_users (session w)) = Some ui \<and>
    ldap_auto_bind e (lc_server_url (ldap_configs (session w) ! ci))
         (lu_ldap_dn (ldap_users (session w) ! ui)) password"
  moreover assume "isl (fst (authenticate_ldap_user e tenant_id email password w))"
  ultimately show False
    by (simp add: authenticate_ldap_user_def Let_def split: prod.splits)
next
  show "isinstance (c, m) LdapServiceError"
    by simp
next
  show "isinstance (LdapServiceError, m) k \<longleftrightarrow> k = LdapServiceError"
    by (cases k) simp_all
next
  assume "c \<noteq> LdapServiceError"
  then show "isinstance (c, m) k \<longleftrightarrow> k = c \<or> k = LdapServiceError"
    by (cases k; cases c) auto
qed

lemma demo_no_user:
  "first_index (\<lambda>u. lu_tenant_id u = ''t1'' \<and> lu_email u = ''old@x.org'' \<and> lu_enabled u)
      (ldap_users (session demo_world)) = None"
  by (simp add: demo_defs)

lemma demo_user_carol:
  "first_index (\<lambda>u. lu_tenant_id u = ''t1'' \<and> lu_email u = ''carol@x.org'' \<and> lu_enabled u)
      (ldap_users (session demo_world)) = Some 1"
  by (simp add: demo_defs)

theorem sync_error_kinds_witness:
  "fst (sync_ldap_users demo_env ''t2'' demo_world) = Inl (LdapServiceError, NoEnabledConfig) \<and>
   fst (sync_ldap_users demo_env_unreachable ''t1'' demo_world) =
     Inl (LdapConnectionError, CannotConnect) \<and>
   fst (sync_ldap_users demo_env_search_raises ''t1'' demo_world) =
     Inl (LdapServiceError, SearchFailed) \<and>
   fst (authenticate_ldap_user demo_env ''t2'' ''alice@y.org'' ''secret'' demo_world) =
     Inl (LdapServiceError, NoEnabledConfig) \<and>
   fst (authenticate_ldap_user demo_env ''t1'' ''old@x.org'' ''secret'' demo_world) =
     Inl (LdapUserNotFoundError, UserMissingOrDisabled) \<and>
   fst (authenticate_ldap_user demo_env ''t1'' ''carol@x.org'' ''guess'' demo_world) =
     Inl (LdapAuthError, AuthenticationFailed) \<and>
   fst (authenticate_ldap_user demo_env_unreachable ''t1'' ''carol@x.org'' ''secret'' demo_world) =
     Inl (LdapAuthError, AuthenticationFailed) \<and>
   \<not> isl (fst (authenticate_ldap_user demo_env ''t1'' ''carol@x.org'' ''secret'' demo_world)) \<and>
   isinstance (LdapConnectionError, CannotConnect) LdapServiceError \<and>
   \<not> isinstance (LdapConnectionError, CannotConnect) LdapAuthError \<and>
   \<not> isinstance (LdapServiceError, SearchFailed) LdapConnectionError"
proof -
  have bind_no: "\<not> ldap_auto_bind demo_env_unreachable
      (lc_server_url (ldap_configs (session demo_world) ! 0))
      (lc_bind_dn (ldap_configs (session demo_world) ! 0))
      (lc_bind_password (ldap_configs (session demo_world) ! 0))"
    by (simp add: demo_defs)
  have bind_yes: "ldap_auto_bind demo_env_search_raises
      (lc_server_url (ldap_configs (session demo_world) ! 0))
      (lc_bind_dn (ldap_configs (session demo_world) ! 0))
      (lc_bind_password (ldap_configs (session demo_world) ! 0))"
    by (simp add: demo_defs)
  have raises: "ldap_search demo_env_search_raises
      (lc_server_url (ldap_configs (session demo_world) ! 0))
      (lc_bind_dn (ldap_configs (session demo_world) ! 0))
      (lc_base_dn (ldap_configs (session demo_world) ! 0))
      (search_filter_of (ldap_configs (session demo_world) ! 0))
      (search_attributes (ldap_configs (session demo_world) ! 0)) = SearchRaises"
    by (simp add: demo_defs)
  have guess: "\<not> ldap_auto_bind demo_env (lc_server_url (ldap_configs (session demo_world) ! 0))
      (lu_ldap_dn (ldap_users (session demo_world) ! 1)) ''guess''"
    by (simp add: demo_defs)
  have down: "\<not> ldap_auto_bind demo_env_unreachable
      (lc_server_url (ldap_configs (session demo_world) ! 0))
      (lu_ldap_dn (ldap_users (session demo_world) ! 1)) ''secret''"
    by (simp add: demo_defs)
  have secret: "ldap_auto_bind demo_env (lc_server_url (ldap_configs (session demo_world) ! 0))
      (lu_ldap_dn (ldap_users (session demo_world) ! 1)) ''secret''"
    by (simp add: demo_defs)
  have 1: "fst (sync_ldap_users demo_env ''t2'' demo_world) =
      Inl (LdapServiceError, NoEnabledConfig)"
    using sync_error_kinds[where e = demo_env and tenant_id = "''t2''" and w = demo_world]
      demo_get_config_t2 by simp
  have 2: "fst (sync_ldap_users demo_env_unreachable ''t1'' demo_world) =
      Inl (LdapConnectionError, CannotConnect)"
    using sync_error_kinds[where e = demo_env_unreachable and tenant_id = "''t1''"
        and w = demo_world and ci = 0] demo_get_config bind_no by blast
  have 3: "fst (sync_ldap_users demo_env_search_raises ''t1'' demo_world) =
      Inl (LdapServiceError, SearchFailed)"
    using sync_error_kinds[where e = demo_env_search_raises and tenant_id = "''t1''"
        and w = demo_world and ci = 0] demo_get_config bind_yes raises by blast
  have 4: "fst (authenticate_ldap_user demo_env ''t2'' ''alice@y.org'' ''secret'' demo_world) =
      Inl (LdapServiceError, NoEnabledConfig)"
    using sync_error_kinds[where e = demo_env and tenant_id = "''t2''" and w = demo_world
        and email = "''alice@y.org''" and password = "''secret''"]
      demo_get_config_t2 by blast
  have 5: "fst (authenticate_ldap_user demo_env ''t1'' ''old@x.org'' ''secret'' demo_world) =
      Inl (LdapUserNotFoundError, UserMissingOrDisabled)"
    using sync_error_kinds[where e = demo_env and tenant_id = "''t1''" and w = demo_world
        and email = "''old@x.org''" and password = "''secret''" and ci = 0]
      demo_get_config demo_no_user by blast
  have 6: "fst (authenticate_ldap_user demo_env ''t1'' ''carol@x.org'' ''guess'' demo_world) =
      Inl (LdapAuthError, AuthenticationFailed)"
    using sync_error_kinds[where e = demo_env and tenant_id = "''t1''" and w = demo_world
        and email = "''carol@x.org''" and password = "''guess''" and ci = 0 and ui = 1]
      demo_get_config demo_user_carol guess by blast
  have 7: "fst (authenticate_ldap_user demo_env_unreachable ''t1'' ''carol@x.org'' ''secret''
        demo_world) = Inl (LdapAuthError, AuthenticationFailed)"
    using sync_error_kinds[where e = demo_env_unreachable and tenant_id = "''t1''"
        and w = demo_world and email = "''carol@x.org''" and password = "''secret''"
        and ci = 0 and ui = 1]
      demo_get_config demo_user_carol down by blast
  have 8: "\<not> isl (fst (authenticate_ldap_user demo_env ''t1'' ''carol@x.org'' ''secret''
        demo_world))"
    using sync_error_kinds[where e = demo_env and tenant_id = "''t1''" and w = demo_world
        and email = "''carol@x.org''" and password = "''secret''" and ci = 0 and ui = 1]
      demo_get_config demo_user_carol secret by blast
  have 9: "isinstance (LdapConnectionError, CannotConnect) LdapServiceError"
    "\<not> isinstance (LdapConnectionError, CannotConnect) LdapAuthError"
    "\<not> isinstance (LdapServiceError, SearchFailed) LdapConnectionError"
    using sync_error_kinds[where c = LdapConnectionError and m = CannotConnect
        and k = LdapAuthError]
      sync_error_kinds[where m = SearchFailed and k = LdapConnectionError]
    by simp_all
  from 1 2 3 4 5 6 7 8 9 show ?thesis by blast
qed

text \<open>
  The claim as stated fails: without a configuration and with a search that raises the
  run raises the same class, and a directory that cannot be reached, which is a
  \<^verbatim>\<open>LdapConnectionError\<close> of the fetch, is a \<^verbatim>\<open>LdapAuthError\<close> of
  \<^verbatim>\<open>authenticate_ldap_user\<close>.
\<close>

theorem sync_error_kinds_counterexample:
  "map_sum fst id (fst (sync_ldap_users demo_env ''t2'' demo_world)) = Inl LdapServiceError \<and>
   map_sum fst id (fst (sync_ldap_users demo_env_search_raises ''t1'' demo_world)) =
     Inl LdapServiceError \<and>
   map_sum fst id (fst (search_ldap_users demo_env_unreachable
                          (ldap_configs (session demo_world) ! 0) demo_world)) =
     Inl LdapConnectionError \<and>
   map_sum fst id (fst (authenticate_ldap_user demo_env_unreachable ''t1'' ''carol@x.org''
                          ''secret'' demo_world)) = Inl LdapAuthError"
  by (simp add: sync_ldap_users_def get_ldap_config_def search_ldap_users_def
      create_ldap_connection_def authenticate_ldap_user_def Let_def demo_defs)

text \<open>
  C7 (as amended). When no enabled mirrored user has the tenant and the address,
  \<^verbatim>\<open>authenticate_ldap_user\<close> raises \<^verbatim>\<open>LdapUserNotFoundError\<close> if the tenant has an
  enabled configuration and \<^verbatim>\<open>LdapServiceError\<close> if it has none, whatever the password;
  in both cases nothing has changed when it raises, so no bind was attempted.
\<close>

theorem authenticate_without_enabled_user:
  "\<forall>u\<in>set (ldap_users (session w)).
      \<not> (lu_tenant_id u = tenant_id \<and> lu_email u = email \<and> lu_enabled u)
   \<Longrightarrow> authenticate_ldap_user e tenant_id email password w =
       (case get_ldap_config tenant_id w of
          None \<Rightarrow> (Inl (LdapServiceError, NoEnabledConfig), w)
        | Some ci \<Rightarrow> (Inl (LdapUserNotFoundError, UserMissingOrDisabled), w))"
  by (simp add: authenticate_ldap_user_def first_index_None[THEN iffD2] split: option.splits)

theorem authenticate_without_enabled_user_witness:
  "\<not> (\<exists>u\<in>set (ldap_users (session demo_world)).
        lu_tenant_id u = ''t1'' \<and> lu_email u = ''old@x.org'' \<and> lu_enabled u) \<and>
   authenticate_ldap_user demo_env ''t1'' ''old@x.org'' ''secret'' demo_world =
     (Inl (LdapUserNotFoundError, UserMissingOrDisabled), demo_world)"
proof -
  have h: "\<forall>u\<in>set (ldap_users (session demo_world)).
      \<not> (lu_tenant_id u = ''t1'' \<and> lu_email u = ''old@x.org'' \<and> lu_enabled u)"
    by (simp add: demo_defs)
  from authenticate_without_enabled_user[OF h, of demo_env "''secret''"] h show ?thesis
    by (simp add: demo_get_config)
qed

text \<open>
  The claim as stated fails for a tenant without an enabled configuration: the disabled
  user of tenant \<open>t2\<close> is turned away with \<^verbatim>\<open>LdapServiceError\<close>.
\<close>

theorem authenticate_without_enabled_user_counterexample:
  "fst (authenticate_ldap_user demo_env ''t2'' ''alice@y.org'' ''secret'' demo_world) =
     Inl (LdapServiceError, NoEnabledConfig)"
  by (simp add: authenticate_ldap_user_def demo_get_config_t2)

text \<open>
  C10 (as amended). For a tenant with an enabled configuration \<^verbatim>\<open>get_sync_stats\<close>
  returns exactly the five items total_users, enabled_users, disabled_users, last_sync_at
  and sync_interval; the counts are over the tenant's mirrored users, and disabled_users,
  computed as the difference of the other two, is the number of the tenant's disabled
  rows. For a tenant without an enabled configuration it returns the empty dictionary.
\<close>

theorem get_sync_stats_record:
  "(get_ldap_config tenant_id w = None \<longrightarrow> get_sync_stats tenant_id w = []) \<and>
   (get_ldap_config tenant_id w = Some ci \<longrightarrow>
      get_sync_stats tenant_id w =
        [(''total_users'',
            IntValue (int (length (filter (\<lambda>u. lu_tenant_id u = tenant_id)
                                     (ldap_users (session w)))))),
         (''enabled_users'',
            IntValue (int (length (filter (\<lambda>u. lu_tenant_id u = tenant_id \<and> lu_enabled u)
                                     (ldap_users (session w)))))),
         (''disabled_users'',
            IntValue (int (length (filter (\<lambda>u. lu_tenant_id u = tenant_id)
                                     (ldap_users (session w)))) -
                      int (length (filter (\<lambda>u. lu_tenant_id u = tenant_id \<and> lu_enabled u)
                                     (ldap_users (session w)))))),
         (''last_sync_at'',
            (case lc_last_sync_at (ldap_configs (session w) ! ci) of
               None \<Rightarrow> NoneValue | Some t \<Rightarrow> IsoFormat t)),
         (''sync_interval'', IntValue (lc_sync_interval (ldap_configs (session w) ! ci)))] \<and>
      int (length (filter (\<lambda>u. lu_tenant_id u = tenant_id) (ldap_users (session w)))) -
      int (length (filter (\<lambda>u. lu_tenant_id u = tenant_id \<and> lu_enabled u)
                     (ldap_users (session w)))) =
      int (length (filter (\<lambda>u. lu_tenant_id u = tenant_id \<and> \<not> lu_enabled u)
                     (ldap_users (session w)))))"
proof -
  have count: "int (length (filter (\<lambda>u. lu_tenant_id u = tenant_id) us)) -
        int (length (filter (\<lambda>u. lu_tenant_id u = tenant_id \<and> lu_enabled u) us)) =
        int (length (filter (\<lambda>u. lu_tenant_id u = tenant_id \<and> \<not> lu_enabled u) us))" for us
    by (induction us) auto
  have "get_ldap_config tenant_id w = None \<longrightarrow> get_sync_stats tenant_id w = []"
    by (simp add: get_sync_stats_def)
  moreover have "get_ldap_config tenant_id w = Some ci \<longrightarrow>
      get_sync_stats tenant_id w =
        [(''total_users'',
            IntValue (int (length (filter (\<lambda>u. lu_tenant_id u = tenant_id)
                                     (ldap_users (session w)))))),
         (''enabled_users'',
            IntValue (int (length (filter (\<lambda>u. lu_tenant_id u = tenant_id \<and> lu_enabled u)
                                     (ldap_users (session w)))))),
         (''disabled_users'',
            IntValue (int (length (filter (\<lambda>u. lu_tenant_id u = tenant_id)
                                     (ldap_users (session w)))) -
                      int (length (filter (\<lambda>u. lu_tenant_id u = tenant_id \<and> lu_enabled u)
                                     (ldap_users (session w)))))),
         (''last_sync_at'',
            (case lc_last_sync_at (ldap_configs (session w) ! ci) of
               None \<Rightarrow> NoneValue | Some t \<Rightarrow> IsoFormat t)),
         (''sync_interval'', IntValue (lc_sync_interval (ldap_configs (session w) ! ci)))]"
    by (simp add: get_sync_stats_def Let_def)
  ultimately show ?thesis
    using count[of "ldap_users (session w)"] by blast
qed

theorem get_sync_stats_record_witness:
  "get_ldap_config ''t1'' demo_world = Some 0 \<and>
   get_sync_stats ''t1'' demo_world =
     [(''total_users'', IntValue 2), (''enabled_users'', IntValue 1),
      (''disabled_users'', IntValue 1), (''last_sync_at'', NoneValue),
      (''sync_interval'', IntValue 30)]"
proof -
  from get_sync_stats_record[of "''t1''" demo_world 0] demo_get_config
  have "get_sync_stats ''t1'' demo_world =
        [(''total_users'',
            IntValue (int (length (filter (\<lambda>u. lu_tenant_id u = ''t1'')
                                     (ldap_users (session demo_world)))))),
         (''enabled_users'',
            IntValue (int (length (filter (\<lambda>u. lu_tenant_id u = ''t1'' \<and> lu_enabled u)
                                     (ldap_users (session demo_world)))))),
         (''disabled_users'',
            IntValue (int (length (filter (\<lambda>u. lu_tenant_id u = ''t1'')
                                     (ldap_users (session demo_world)))) -
                      int (length (filter (\<lambda>u. lu_tenant_id u = ''t1'' \<and> lu_enabled u)
                                     (ldap_users (session demo_world)))))),
         (''last_sync_at'',
            (case lc_last_sync_at (ldap_configs (session demo_world) ! 0) of
               None \<Rightarrow> NoneValue | Some t \<Rightarrow> IsoFormat t)),
         (''sync_interval'', IntValue (lc_sync_interval (ldap_configs (session demo_world) ! 0)))]"
    by blast
  also have "\<dots> = [(''total_users'', IntValue 2), (''enabled_users'', IntValue 1),
      (''disabled_users'', IntValue 1), (''last_sync_at'', NoneValue),
      (''sync_interval'', IntValue 30)]"
    by (simp add: demo_defs)
  finally show ?thesis
    using demo_get_config by blast
qed

text \<open>The claim as stated fails for tenant \<open>t2\<close>, which has no enabled configuration.\<close>

theorem get_sync_stats_record_counterexample:
  "map fst (get_sync_stats ''t2'' demo_world) = []"
  by (simp add: get_sync_stats_def demo_get_config_t2)

text \<open>
  C8. A record without an address is not skipped. The directory lists dave, who has no
  mail address: the text of his mail attribute is \<^verbatim>\<open>[]\<close>, which is not empty, so
  \<^verbatim>\<open>search_ldap_users\<close> keeps the record, \<^verbatim>\<open>total\<close> counts it, and the run commits a
  mirror row for dave whose address is \<^verbatim>\<open>[]\<close>.
\<close>

theorem sync_keeps_record_without_mail:
  "fst (search_ldap_users demo_env_no_mail demo_config demo_world) =
     Inr [\<lparr>ud_uid = ''dave'', ud_email = ''[]'', ud_name = ''Dave'',
           ud_dn = ''uid=dave,ou=people,dc=x''\<rparr>] \<and>
   fst (sync_ldap_users demo_env_no_mail ''t1'' demo_world) =
     Inr \<lparr>total = 1, created = 1, updated = 0, disabled = 1\<rparr> \<and>
   drop 3 (ldap_users (durable (snd (sync_ldap_users demo_env_no_mail ''t1'' demo_world)))) =
     [\<lparr>lu_id = ''id-'', lu_tenant_id = ''t1'', lu_account_id = None, lu_ldap_uid = ''dave'',
       lu_email = ''[]'', lu_name = ''Dave'', lu_ldap_dn = ''uid=dave,ou=people,dc=x'',
       lu_enabled = True, lu_last_sync_at = 100, lu_created_at = 100, lu_updated_at = 100\<rparr>]"
  by (simp add: run_defs demo_defs)

text \<open>
  C6. When the tenant has an enabled configuration, an enabled mirrored user has the
  address and the bind of that user succeeds, \<^verbatim>\<open>authenticate_ldap_user\<close> returns an
  account, that account is in the table of accounts, and the row of the mirrored user is
  linked to it. If the row has a link and an account with that identifier exists, it is
  that account and nothing is written. Otherwise (no link, or a link to no account), if an
  account has the address of the row, it is the first such account: no account and no
  membership is added, the row is linked to it and the change is committed. Otherwise one
  account is added, with status \<^verbatim>\<open>ACTIVE\<close> and the name and address of the row, one
  membership of the tenant with the role \<^verbatim>\<open>NORMAL\<close> is added for it, the row is linked to
  it and all of this is committed.
\<close>

theorem authenticate_resolves_account:
  assumes "get_ldap_config tenant_id w = Some ci"
    and "first_index (\<lambda>u. lu_tenant_id u = tenant_id \<and> lu_email u = email \<and> lu_enabled u)
           (ldap_users (session w)) = Some ui"
    and "ldap_auto_bind e (lc_server_url (ldap_configs (session w) ! ci))
           (lu_ldap_dn (ldap_users (session w) ! ui)) password"
    and "authenticate_ldap_user e tenant_id email password w = (r, w')"
    and "ldap_user = ldap_users (session w) ! ui"
  shows "\<exists>account.
      r = Inr account \<and>
      account \<in> set (accounts (session w')) \<and>
      lu_account_id (ldap_users (session w') ! ui) = Some (acc_id account) \<and>
      (truthy (lu_account_id ldap_user) \<and>
       (\<exists>a\<in>set (accounts (session w)). Some (acc_id a) = lu_account_id ldap_user) \<longrightarrow>
         find (\<lambda>a. Some (acc_id a) = lu_account_id ldap_user) (accounts (session w)) =
           Some account \<and>
         session w' = session w \<and> durable w' = durable w) \<and>
      (\<not> (truthy (lu_account_id ldap_user) \<and>
          (\<exists>a\<in>set (accounts (session w)). Some (acc_id a) = lu_account_id ldap_user)) \<and>
       (\<exists>a\<in>set (accounts (session w)). acc_email a = lu_email ldap_user) \<longrightarrow>
         find (\<lambda>a. acc_email a = lu_email ldap_user) (accounts (session w)) = Some account \<and>
         session w' =
           (session w)
             \<lparr>ldap_users := (ldap_users (session w))
                [ui := ldap_user\<lparr>lu_account_id := Some (acc_id account),
                                  lu_updated_at := utc_now e\<rparr>]\<rparr> \<and>
         durable w' = session w') \<and>
      (\<not> (truthy (lu_account_id ldap_user) \<and>
          (\<exists>a\<in>set (accounts (session w)). Some (acc_id a) = lu_account_id ldap_user)) \<and>
       \<not> (\<exists>a\<in>set (accounts (session w)). acc_email a = lu_email ldap_user) \<longrightarrow>
         acc_status account = ACTIVE \<and>
         acc_name account = lu_name ldap_user \<and>
         acc_email account = lu_email ldap_user \<and>
         session w' =
           (session w)
             \<lparr>accounts := accounts (session w) @ [account],
              ldap_users := (ldap_users (session w))
                [ui := ldap_user\<lparr>lu_account_id := Some (acc_id account),
                                  lu_updated_at := utc_now e\<rparr>],
              tenant_account_joins := tenant_account_joins (session w) @
                [\<lparr>taj_tenant_id = tenant_id, taj_account_id = acc_id account,
                  taj_role = NORMAL\<rparr>]\<rparr> \<and>
         durable w' = session w')"
proof -
  obtain w0 where w0: "session w0 = session w" "durable w0 = durable w"
      "uuid_count w0 = uuid_count w"
    and auth: "authenticate_ldap_user e tenant_id email password w =
           (Inr (fst (get_or_create_local_account e ui tenant_id w0)),
            snd (get_or_create_local_account e ui tenant_id w0))"
    using authenticate_bound[OF assms(1,2,3)] by blast
  let ?g = "get_or_create_local_account e ui tenant_id w0"
  from auth assms(4) have r: "r = Inr (fst ?g)" and w': "w' = snd ?g"
    by simp_all
  have ui: "ui < length (ldap_users (session w))"
    using assms(2) by (simp add: first_index_Some_iff)
  let ?by_id = "find (\<lambda>a. Some (acc_id a) = lu_account_id ldap_user) (accounts (session w))"
  let ?by_email = "find (\<lambda>a. acc_email a = lu_email ldap_user) (accounts (session w))"
  let ?linked = "truthy (lu_account_id ldap_user) \<and>
       (\<exists>a\<in>set (accounts (session w)). Some (acc_id a) = lu_account_id ldap_user)"
  let ?known = "\<exists>a\<in>set (accounts (session w)). acc_email a = lu_email ldap_user"
  let ?row = "\<lambda>account. ldap_user\<lparr>lu_account_id := Some (acc_id account),
                                  lu_updated_at := utc_now e\<rparr>"
  let ?P0 = "\<lambda>account. r = Inr account \<and> account \<in> set (accounts (session w')) \<and>
      lu_account_id (ldap_users (session w') ! ui) = Some (acc_id account)"
  let ?P1 = "\<lambda>account. ?linked \<longrightarrow>
         ?by_id = Some account \<and> session w' = session w \<and> durable w' = durable w"
  let ?P2 = "\<lambda>account. \<not> ?linked \<and> ?known \<longrightarrow>
         ?by_email = Some account \<and>
         session w' =
           (session w)\<lparr>ldap_users := (ldap_users (session w))[ui := ?row account]\<rparr> \<and>
         durable w' = session w'"
  let ?P3 = "\<lambda>account. \<not> ?linked \<and> \<not> ?known \<longrightarrow>
         acc_status account = ACTIVE \<and>
         acc_name account = lu_name ldap_user \<and>
         acc_email account = lu_email ldap_user \<and>
         session w' =
           (session w)
             \<lparr>accounts := accounts (session w) @ [account],
              ldap_users := (ldap_users (session w))[ui := ?row account],
              tenant_account_joins := tenant_account_joins (session w) @
                [\<lparr>taj_tenant_id = tenant_id, taj_account_id = acc_id account,
                  taj_role = NORMAL\<rparr>]\<rparr> \<and>
         durable w' = session w'"
  have "\<exists>account. ?P0 account \<and> ?P1 account \<and> ?P2 account \<and> ?P3 account"
  proof (cases ?linked)
    case True
    then obtain account where f: "?by_id = Some account"
      using find_None_set[of "\<lambda>a. Some (acc_id a) = lu_account_id ldap_user" "accounts (session w)"]
      by (cases ?by_id) auto
    from True f have g: "?g = (account, w0)"
      using get_or_create_linked[of w0 ui account e tenant_id]
      by (simp add: w0 assms(5))
    from find_Some_in_set[OF f] have mem: "account \<in> set (accounts (session w))"
      and link: "lu_account_id ldap_user = Some (acc_id account)"
      by simp_all
    from g w' w0 have same: "session w' = session w" "durable w' = durable w"
      by simp_all
    have "?P0 account"
      using r g same mem link by (simp add: assms(5))
    moreover have "?P1 account"
      using f same by simp
    moreover have "?P2 account" "?P3 account"
      using True by blast+
    ultimately show ?thesis by blast
  next
    case False
    then have nolink: "\<not> truthy (lu_account_id (ldap_users (session w0) ! ui)) \<or>
           find (\<lambda>a. Some (acc_id a) = lu_account_id (ldap_users (session w0) ! ui))
             (accounts (session w0)) = None"
      using find_None_set[of "\<lambda>a. Some (acc_id a) = lu_account_id ldap_user" "accounts (session w)"]
      by (auto simp: w0 assms(5))
    show ?thesis
    proof (cases ?known)
      case True
      then obtain account where f: "?by_email = Some account"
        using find_None_set[of "\<lambda>a. acc_email a = lu_email ldap_user" "accounts (session w)"]
        by (cases ?by_email) auto
      then have f0: "find (\<lambda>a. acc_email a = lu_email (ldap_users (session w0) ! ui))
           (accounts (session w0)) = Some account"
        by (simp add: w0 assms(5))
      from find_Some_in_set[OF f] have mem: "account \<in> set (accounts (session w))"
        by simp
      from get_or_create_by_email[OF nolink f0, of e tenant_id]
      have g: "?g = (account,
            commit (set_ldap_users ((ldap_users (session w))[ui := ?row account]) w0))"
        by (simp add: w0 assms(5))
      have s': "session w' =
           (session w)\<lparr>ldap_users := (ldap_users (session w))[ui := ?row account]\<rparr>"
        using w' g by (simp add: w0)
      have d': "durable w' = session w'"
        using w' g by simp
      have "r = Inr account"
        using r g by simp
      moreover have "account \<in> set (accounts (session w'))"
        using mem by (simp add: s')
      moreover have "lu_account_id (ldap_users (session w') ! ui) = Some (acc_id account)"
        using ui by (simp add: s')
      ultimately have "?P0 account"
        by simp
      moreover have "?P1 account"
        using False by blast
      moreover have "?P2 account"
        using f s' d' by simp
      moreover have "?P3 account"
        using True by blast
      ultimately show ?thesis by blast
    next
      case unknown: False
      then have f0: "find (\<lambda>a. acc_email a = lu_email (ldap_users (session w0) ! ui))
           (accounts (session w0)) = None"
        using find_None_set[of "\<lambda>a. acc_email a = lu_email ldap_user" "accounts (session w)"]
        by (simp add: w0 assms(5))
      define account where "account =
          \<lparr>acc_id = uuid_generate_v4 e (uuid_count w0),
           acc_name = lu_name (ldap_users (session w0) ! ui),
           acc_email = lu_email (ldap_users (session w0) ! ui),
           acc_status = ACTIVE,
           acc_initialized_at = Some (utc_now e)\<rparr>"
      from get_or_create_new[OF nolink f0 account_def, of tenant_id]
      have g: "fst ?g = account"
        and s0: "session (snd ?g) =
           (session w0)
             \<lparr>accounts := accounts (session w0) @ [account],
              ldap_users := (ldap_users (session w0))
                 [ui := (ldap_users (session w0) ! ui)
                    \<lparr>lu_account_id := Some (acc_id account), lu_updated_at := utc_now e\<rparr>],
              tenant_account_joins := tenant_account_joins (session w0) @
                 [\<lparr>taj_tenant_id = tenant_id, taj_account_id = acc_id account,
                   taj_role = NORMAL\<rparr>]\<rparr>"
        and d0: "durable (snd ?g) = session (snd ?g)"
        by simp_all
      have s': "session w' =
           (session w)
             \<lparr>accounts := accounts (session w) @ [account],
              ldap_users := (ldap_users (session w))[ui := ?row account],
              tenant_account_joins := tenant_account_joins (session w) @
                [\<lparr>taj_tenant_id = tenant_id, taj_account_id = acc_id account,
                  taj_role = NORMAL\<rparr>]\<rparr>"
        using s0 w' by (simp add: w0 assms(5))
      have d': "durable w' = session w'"
        using d0 w' by simp
      have fields: "acc_status account = ACTIVE" "acc_name account = lu_name ldap_user"
        "acc_email account = lu_email ldap_user"
        by (simp_all add: account_def w0 assms(5))
      have "r = Inr account"
        using r g by simp
      moreover have "account \<in> set (accounts (session w'))"
        by (simp add: s')
      moreover have "lu_account_id (ldap_users (session w') ! ui) = Some (acc_id account)"
        using ui by (simp add: s')
      ultimately have "?P0 account"
        by simp
      moreover have "?P1 account"
        using False by blast
      moreover have "?P2 account"
        using unknown by blast
      moreover have "?P3 account"
        using fields s' d' by simp
      ultimately show ?thesis by blast
    qed
  qed
  then show ?thesis by simp
qed

theorem authenticate_resolves_account_witness:
  "get_ldap_config ''t1'' demo_world = Some 0 \<and>
   first_index (\<lambda>u. lu_tenant_id u = ''t1'' \<and> lu_email u = ''carol@x.org'' \<and> lu_enabled u)
     (ldap_users (session demo_world)) = Some 1 \<and>
   ldap_auto_bind demo_env (lc_server_url (ldap_configs (session demo_world) ! 0))
     (lu_ldap_dn (ldap_users (session demo_world) ! 1)) ''secret'' \<and>
   lu_account_id demo_carol = Some ''acc-2'' \<and>
   map acc_id (accounts (session demo_world)) = [''acc-1''] \<and>
   (\<exists>account.
      fst (authenticate_ldap_user demo_env ''t1'' ''carol@x.org'' ''secret'' demo_world) =
        Inr account \<and>
      acc_status account = ACTIVE \<and> acc_name account = ''Carol'' \<and>
      acc_email account = ''carol@x.org'' \<and>
      accounts (session (snd (authenticate_ldap_user demo_env ''t1'' ''carol@x.org'' ''secret''
                                 demo_world))) = [demo_account, account] \<and>
      tenant_account_joins (session (snd (authenticate_ldap_user demo_env ''t1'' ''carol@x.org''
                                 ''secret'' demo_world))) =
        [\<lparr>taj_tenant_id = ''t1'', taj_account_id = acc_id account, taj_role = NORMAL\<rparr>] \<and>
      lu_account_id (ldap_users (session (snd (authenticate_ldap_user demo_env ''t1''
                                 ''carol@x.org'' ''secret'' demo_world))) ! 1) =
        Some (acc_id account))"
proof -
  let ?run = "authenticate_ldap_user demo_env ''t1'' ''carol@x.org'' ''secret'' demo_world"
  have secret: "ldap_auto_bind demo_env (lc_server_url (ldap_configs (session demo_world) ! 0))
      (lu_ldap_dn (ldap_users (session demo_world) ! 1)) ''secret''"
    by (simp add: demo_defs)
  have carol: "demo_carol = ldap_users (session demo_world) ! 1"
    by (simp add: demo_defs)
  have dangling: "\<not> (truthy (lu_account_id demo_carol) \<and>
          (\<exists>a\<in>set (accounts (session demo_world)). Some (acc_id a) = lu_account_id demo_carol))"
    by (simp add: demo_defs)
  have unknown: "\<not> (\<exists>a\<in>set (accounts (session demo_world)). acc_email a = lu_email demo_carol)"
    by (simp add: demo_defs)
  have facts: "lu_account_id demo_carol = Some ''acc-2''"
    "map acc_id (accounts (session demo_world)) = [''acc-1'']"
    "lu_name demo_carol = ''Carol''" "lu_email demo_carol = ''carol@x.org''"
    "accounts (session demo_world) = [demo_account]"
    "tenant_account_joins (session demo_world) = []"
    by (simp_all add: demo_defs)
  from authenticate_resolves_account[OF demo_get_config demo_user_carol secret
      prod.collapse[symmetric, of ?run] carol]
  obtain account where a: "fst ?run = Inr account"
    "lu_account_id (ldap_users (session (snd ?run)) ! 1) = Some (acc_id account)"
    and new: "\<not> (truthy (lu_account_id demo_carol) \<and>
          (\<exists>a\<in>set (accounts (session demo_world)). Some (acc_id a) = lu_account_id demo_carol)) \<and>
       \<not> (\<exists>a\<in>set (accounts (session demo_world)). acc_email a = lu_email demo_carol) \<longrightarrow>
         acc_status account = ACTIVE \<and>
         acc_name account = lu_name demo_carol \<and>
         acc_email account = lu_email demo_carol \<and>
         session (snd ?run) =
           (session demo_world)
             \<lparr>accounts := accounts (session demo_world) @ [account],
              ldap_users := (ldap_users (session demo_world))
                [1 := demo_carol\<lparr>lu_account_id := Some (acc_id account),
                                  lu_updated_at := utc_now demo_env\<rparr>],
              tenant_account_joins := tenant_account_joins (session demo_world) @
                [\<lparr>taj_tenant_id = ''t1'', taj_account_id = acc_id account,
                  taj_role = NORMAL\<rparr>]\<rparr> \<and>
         durable (snd ?run) = session (snd ?run)"
    by blast
  from new dangling unknown have b: "acc_status account = ACTIVE"
    "acc_name account = lu_name demo_carol" "acc_email account = lu_email demo_carol"
    and s: "session (snd ?run) =
           (session demo_world)
             \<lparr>accounts := accounts (session demo_world) @ [account],
              ldap_users := (ldap_users (session demo_world))
                [1 := demo_carol\<lparr>lu_account_id := Some (acc_id account),
                                  lu_updated_at := utc_now demo_env\<rparr>],
              tenant_account_joins := tenant_account_joins (session demo_world) @
                [\<lparr>taj_tenant_id = ''t1'', taj_account_id = acc_id account,
                  taj_role = NORMAL\<rparr>]\<rparr>"
    by blast+
  have c: "accounts (session (snd ?run)) = [demo_account, account]"
    "tenant_account_joins (session (snd ?run)) =
        [\<lparr>taj_tenant_id = ''t1'', taj_account_id = acc_id account, taj_role = NORMAL\<rparr>]"
    by (simp_all add: s facts)
  from a b c facts demo_get_config demo_user_carol secret show ?thesis
    by (intro conjI exI[of _ account]) simp_all
qed








end
